theory Spec2Isabelle
  imports Main
begin

section \<open>Exceptions, handles and the observable actions of the manager\<close>

text \<open>
  The class \<open>Browser\<close> of \<open>browser.py\<close> is a factory around an automation engine, the
  file system, a process launcher and an HTTP probe. None of those collaborators is code
  of the repository, so every call into them is a primitive whose outcome is read from a
  record \<open>world\<close> (one field per call) and whose occurrence is appended to a trace.

  A value of type \<open>exn\<close> is an instance of Python's \<open>Exception\<close>: its class and its text
  (\<open>str(e)\<close>). \<open>Requests_ConnectionError\<close> stands for \<open>requests.ConnectionError\<close> and
  its subclasses, \<open>Requests_ReadTimeout\<close> for \<open>requests.ReadTimeout\<close>.
  \<open>BaseException\<close>s that are no \<open>Exception\<close> (keyboard interrupt, task cancellation)
  are asynchronous signals, not failures of a step, and are not modelled.
\<close>

datatype exn_class =
    ValueError | TypeError | RuntimeError | TimeoutError | FileNotFoundError | OSError
  | AttributeError | Requests_ConnectionError | Requests_ReadTimeout | Playwright_Error

datatype exn = Exn (exn_class: exn_class) (exn_msg: string)

type_synonym handle = nat

datatype level = DEBUG | INFO | WARNING | ERROR

text \<open>The engine's \<open>ProxySettings\<close> dictionary, passed through to the launch unchanged.\<close>

record proxy_settings =
  server :: string
  bypass :: "string option"
  username :: "string option"
  password :: "string option"

datatype event =
    Async_playwright_start
  | Connect_over_cdp string "nat option"
  | Connect string
  | Requests_get string nat
  | Popen "string list"
  | Asyncio_sleep nat
  | Time_sleep nat
  | Launch string bool "string option" "string list" "proxy_settings option"
  | New_context handle "string option"
  | TemporaryDirectory string
  | Makedirs string
  | Copy2 string string
  | Copytree string string
  | Context_close handle
  | Browser_close handle
  | Playwright_stop handle
  | Tempdir_cleanup string
  | Gc_collect
  | Log level string

datatype probe = Response nat | Raises exn

datatype pw_attr = Browser_type string | Other_attr string

text \<open>
  The environment of one run. \<open>w_requests_get\<close> is indexed by the number of actions
  performed so far, so that consecutive probes may be answered differently.
  \<open>w_getattr\<close> is \<open>getattr(playwright, name)\<close>: a launcher, some other attribute
  (given by the name of its type), or nothing. The path functions of \<open>os.path\<close> and \<open>os.sep\<close> depend on the platform.
\<close>

record world =
  w_async_playwright_start :: "exn + handle"
  w_connect_over_cdp :: "string \<Rightarrow> nat option \<Rightarrow> exn + handle"
  w_connect :: "string \<Rightarrow> exn + handle"
  w_requests_get :: "nat \<Rightarrow> probe"
  w_popen :: "string list \<Rightarrow> exn option"
  w_platform_system :: string
  w_path_exists :: "string \<Rightarrow> bool"
  w_path_isdir :: "string \<Rightarrow> bool"
  w_os_sep :: string
  w_path_join :: "string \<Rightarrow> string list \<Rightarrow> string"
  w_dirname :: "string \<Rightarrow> string"
  w_basename :: "string \<Rightarrow> string"
  w_TemporaryDirectory :: "string \<Rightarrow> exn + string"
  w_makedirs :: "string \<Rightarrow> exn option"
  w_copy2 :: "string \<Rightarrow> string \<Rightarrow> exn option"
  w_copytree :: "string \<Rightarrow> string \<Rightarrow> exn option"
  w_glob :: "string \<Rightarrow> string list"
  w_getattr :: "string \<Rightarrow> pw_attr option"
  w_launch :: "string \<Rightarrow> bool \<Rightarrow> string option \<Rightarrow> string list \<Rightarrow> proxy_settings option \<Rightarrow> exn + handle"
  w_new_context :: "handle \<Rightarrow> string option \<Rightarrow> exn + handle"
  w_context_close :: "handle \<Rightarrow> exn option"
  w_browser_close :: "handle \<Rightarrow> exn option"
  w_playwright_stop :: "handle \<Rightarrow> exn option"
  w_cleanup :: "string \<Rightarrow> exn option"

section \<open>Configuration and manager state\<close>

text \<open>
  \<open>BrowserConfig\<close>, field by field; \<open>new_context_config\<close> is never read by \<open>Browser\<close>
  and is left out. \<open>browser\<close> holds the attributes that \<open>__init__\<close> creates; a
  \<open>TemporaryDirectory\<close> object is identified by its \<open>name\<close>. \<open>run\<close> adds the trace of
  the actions performed so far.
\<close>

record browser_config =
  headless :: bool
  disable_security :: bool
  extra_chromium_args :: "string list"
  chrome_instance_path :: "string option"
  wss_url :: "string option"
  cdp_url :: "string option"
  browser_type :: string
  user_data_dir :: "string option"
  use_existing_browser :: bool
  proxy :: "proxy_settings option"
  force_keep_browser_alive :: bool

record browser =
  config :: browser_config
  playwright :: "handle option"
  playwright_browser :: "handle option"
  browser_context :: "handle option"
  temp_dir :: "string option"
  disable_security_args :: "string list"

record run = browser +
  trace :: "event list"

definition BrowserConfig :: browser_config where
  "BrowserConfig =
     \<lparr>headless = False, disable_security = True, extra_chromium_args = [],
      chrome_instance_path = None, wss_url = None, cdp_url = None,
      browser_type = ''chromium'', user_data_dir = None, use_existing_browser = False,
      proxy = None, force_keep_browser_alive = False\<rparr>"

definition Browser_init :: "browser_config \<Rightarrow> run" where
  "Browser_init cfg =
     \<lparr>config = cfg, playwright = None, playwright_browser = None, browser_context = None,
      temp_dir = None,
      disable_security_args =
        (if disable_security cfg then
           [''--disable-web-security'', ''--disable-site-isolation-trials'',
            ''--disable-features=IsolateOrigins,site-per-process'']
         else []),
      trace = [Log DEBUG ''Initializing new browser'']\<rparr>"

text \<open>Python's truth value of a \<open>str | None\<close>: \<open>None\<close> and the empty string are false.\<close>

fun truthy :: "string option \<Rightarrow> bool" where
  "truthy None = False"
| "truthy (Some u) = (u \<noteq> [])"

section \<open>Sequencing, exceptions and the primitive calls\<close>

type_synonym 'a io = "run \<Rightarrow> (exn + 'a) \<times> run"

definition return_io :: "'a \<Rightarrow> 'a io" where
  "return_io x s = (Inr x, s)"

definition raise_io :: "exn \<Rightarrow> 'a io" where
  "raise_io e s = (Inl e, s)"

definition bind_io :: "'a io \<Rightarrow> ('a \<Rightarrow> 'b io) \<Rightarrow> 'b io" where
  "bind_io m k s = (case m s of (Inl e, s1) \<Rightarrow> (Inl e, s1) | (Inr x, s1) \<Rightarrow> k x s1)"

definition then_io :: "'a io \<Rightarrow> 'b io \<Rightarrow> 'b io" where
  "then_io m k = bind_io m (\<lambda>_. k)"

text \<open>\<open>try: body except C as e: handler e\<close>, where \<open>catches\<close> decides \<open>isinstance(e, C)\<close>.\<close>

definition try_except :: "'a io \<Rightarrow> (exn \<Rightarrow> bool) \<Rightarrow> (exn \<Rightarrow> 'a io) \<Rightarrow> 'a io" where
  "try_except body catches handler s =
     (case body s of
        (Inl e, s1) \<Rightarrow> if catches e then handler e s1 else (Inl e, s1)
      | (Inr x, s1) \<Rightarrow> (Inr x, s1))"

text \<open>\<open>try: body finally: fin\<close> for a \<open>fin\<close> that only assigns and cannot raise.\<close>

definition try_finally :: "'a io \<Rightarrow> (run \<Rightarrow> run) \<Rightarrow> 'a io" where
  "try_finally body fin s = (case body s of (r, s1) \<Rightarrow> (r, fin s1))"

text \<open>
  Reading attributes of \<open>self\<close>: the computation may depend on the manager as it is
  when the computation starts.
\<close>

definition with_self :: "(run \<Rightarrow> 'a io) \<Rightarrow> 'a io" where
  "with_self f s = f s s"

definition is_Exception :: "exn \<Rightarrow> bool" where
  "is_Exception e = True"

definition is_requests_ConnectionError :: "exn \<Rightarrow> bool" where
  "is_requests_ConnectionError e = (exn_class e = Requests_ConnectionError)"

definition emit :: "event \<Rightarrow> run \<Rightarrow> run" where
  "emit ev s = s\<lparr>trace := trace s @ [ev]\<rparr>"

definition now :: "run \<Rightarrow> nat" where
  "now s = length (trace s)"

definition logger :: "level \<Rightarrow> string \<Rightarrow> unit io" where
  "logger l msg s = (Inr (), emit (Log l msg) s)"

text \<open>A call that returns a value or raises, and one that returns nothing or raises.\<close>

definition call :: "event \<Rightarrow> (exn + 'a) \<Rightarrow> 'a io" where
  "call ev outcome s = (outcome, emit ev s)"

definition call_unit :: "event \<Rightarrow> exn option \<Rightarrow> unit io" where
  "call_unit ev outcome s =
     ((case outcome of None \<Rightarrow> Inr () | Some e \<Rightarrow> Inl e), emit ev s)"

definition modify :: "(run \<Rightarrow> run) \<Rightarrow> unit io" where
  "modify f s = (Inr (), f s)"

section \<open>Teardown\<close>

text \<open>
  \<open>Browser.close\<close>. \<open>del self.playwright_browser\<close> and \<open>del self.playwright\<close> remove the
  attribute; nothing reads it before the \<open>finally\<close> block assigns \<open>None\<close>, so the removed
  attribute is represented by \<open>None\<close>.
\<close>

definition close_context :: "world \<Rightarrow> unit io" where
  "close_context w =
     with_self (\<lambda>self. case browser_context self of
        None \<Rightarrow> return_io ()
      | Some c \<Rightarrow>
          then_io (call_unit (Context_close c) (w_context_close w c))
                  (modify (\<lambda>s. s\<lparr>browser_context := None\<rparr>)))"

definition close_playwright_browser :: "world \<Rightarrow> unit io" where
  "close_playwright_browser w =
     with_self (\<lambda>self. case playwright_browser self of
        None \<Rightarrow> return_io ()
      | Some b \<Rightarrow>
          then_io (call_unit (Browser_close b) (w_browser_close w b))
                  (modify (\<lambda>s. s\<lparr>playwright_browser := None\<rparr>)))"

definition stop_playwright :: "world \<Rightarrow> unit io" where
  "stop_playwright w =
     with_self (\<lambda>self. case playwright self of
        None \<Rightarrow> return_io ()
      | Some p \<Rightarrow>
          then_io (call_unit (Playwright_stop p) (w_playwright_stop w p))
                  (modify (\<lambda>s. s\<lparr>playwright := None\<rparr>)))"

definition cleanup_temp_dir :: "world \<Rightarrow> unit io" where
  "cleanup_temp_dir w =
     with_self (\<lambda>self. case temp_dir self of
        None \<Rightarrow> return_io ()
      | Some d \<Rightarrow>
          then_io
            (try_except (call_unit (Tempdir_cleanup d) (w_cleanup w d)) is_Exception
               (\<lambda>e. logger DEBUG (''Failed to clean up temporary directory: '' @ exn_msg e)))
            (modify (\<lambda>s. s\<lparr>temp_dir := None\<rparr>)))"

definition close_body :: "world \<Rightarrow> unit io" where
  "close_body w =
     with_self (\<lambda>self.
       if \<not> force_keep_browser_alive (config self) then
         then_io (close_context w)
        (then_io (close_playwright_browser w)
        (then_io (stop_playwright w)
                 (cleanup_temp_dir w)))
       else return_io ())"

definition close_finally :: "run \<Rightarrow> run" where
  "close_finally s =
     emit Gc_collect
       (s\<lparr>browser_context := None, playwright_browser := None, playwright := None,
          temp_dir := None\<rparr>)"

definition close :: "world \<Rightarrow> unit io" where
  "close w =
     try_finally
       (try_except (close_body w) is_Exception
          (\<lambda>e. logger DEBUG (''Failed to close browser properly: '' @ exn_msg e)))
       close_finally"

text \<open>The four teardown calls, as opposed to logging and garbage collection.\<close>

fun is_teardown :: "event \<Rightarrow> bool" where
  "is_teardown (Context_close c) = True"
| "is_teardown (Browser_close b) = True"
| "is_teardown (Playwright_stop p) = True"
| "is_teardown (Tempdir_cleanup d) = True"
| "is_teardown ev = False"

section \<open>Strings and paths\<close>

text \<open>
  \<open>str.replace(old, new)\<close>: every non-overlapping occurrence of \<open>old\<close>, from the left.
  The counter of \<open>replace_from\<close> is the number of characters of a match still to be
  skipped. An empty \<open>old\<close> matches between all characters.
\<close>

fun replace_from :: "nat \<Rightarrow> string \<Rightarrow> string \<Rightarrow> string \<Rightarrow> string" where
  "replace_from k old new [] = []"
| "replace_from (Suc k) old new (c # cs) = replace_from k old new cs"
| "replace_from 0 old new (c # cs) =
     (if take (length old) (c # cs) = old then new @ replace_from (length old - 1) old new cs
      else c # replace_from 0 old new cs)"

definition py_replace :: "string \<Rightarrow> string \<Rightarrow> string \<Rightarrow> string" where
  "py_replace str old new =
     (if old = [] then new @ concat (map (\<lambda>c. c # new) str)
      else replace_from 0 old new str)"

text \<open>\<open>str.lstrip(chars)\<close>: drop the leading characters that occur in \<open>chars\<close>.\<close>

definition lstrip :: "string \<Rightarrow> string \<Rightarrow> string" where
  "lstrip chars str = dropWhile (\<lambda>c. c \<in> set chars) str"

text \<open>
  The functions of \<open>posixpath\<close>, for the environments of macOS and Linux:
  \<open>join\<close> restarts at a component that begins with a slash and inserts a slash unless
  the path so far is empty or ends with one; \<open>dirname\<close> is the part up to the last
  slash, without trailing slashes unless it consists of slashes only; \<open>basename\<close> is
  the part after the last slash.
\<close>

definition posix_join :: "string \<Rightarrow> string list \<Rightarrow> string" where
  "posix_join a ps =
     foldl (\<lambda>path b.
              if take 1 b = ''/'' then b
              else if path = [] \<or> last path = CHR ''/'' then path @ b
              else path @ ''/'' @ b) a ps"

definition posix_dirname :: "string \<Rightarrow> string" where
  "posix_dirname p =
     (let head = rev (dropWhile (\<lambda>c. c \<noteq> CHR ''/'') (rev p)) in
      if head \<noteq> [] \<and> \<not> list_all (\<lambda>c. c = CHR ''/'') head
      then rev (dropWhile (\<lambda>c. c = CHR ''/'') (rev head)) else head)"

definition posix_basename :: "string \<Rightarrow> string" where
  "posix_basename p = rev (takeWhile (\<lambda>c. c \<noteq> CHR ''/'') (rev p))"

section \<open>Primitive calls\<close>

definition version_url :: string where
  "version_url = ''http://localhost:9222/json/version''"

definition debug_endpoint :: string where
  "debug_endpoint = ''http://localhost:9222''"

text \<open>\<open>requests.get(version_url, timeout=2)\<close>, returning the status code of the response.\<close>

definition requests_get :: "world \<Rightarrow> nat io" where
  "requests_get w =
     with_self (\<lambda>self.
       call (Requests_get version_url 2)
         (case w_requests_get w (now self) of Response code \<Rightarrow> Inr code | Raises e \<Rightarrow> Inl e))"

definition connect_over_cdp :: "world \<Rightarrow> string \<Rightarrow> nat option \<Rightarrow> handle io" where
  "connect_over_cdp w url timeout = call (Connect_over_cdp url timeout) (w_connect_over_cdp w url timeout)"

definition connect :: "world \<Rightarrow> string \<Rightarrow> handle io" where
  "connect w url = call (Connect url) (w_connect w url)"

definition popen :: "world \<Rightarrow> string list \<Rightarrow> unit io" where
  "popen w cmd = call_unit (Popen cmd) (w_popen w cmd)"

definition asyncio_sleep :: "nat \<Rightarrow> unit io" where
  "asyncio_sleep n = call_unit (Asyncio_sleep n) None"

definition time_sleep :: "nat \<Rightarrow> unit io" where
  "time_sleep n = call_unit (Time_sleep n) None"

definition makedirs :: "world \<Rightarrow> string \<Rightarrow> unit io" where
  "makedirs w path = call_unit (Makedirs path) (w_makedirs w path)"

definition copy2 :: "world \<Rightarrow> string \<Rightarrow> string \<Rightarrow> unit io" where
  "copy2 w src dst = call_unit (Copy2 src dst) (w_copy2 w src dst)"

definition copytree :: "world \<Rightarrow> string \<Rightarrow> string \<Rightarrow> unit io" where
  "copytree w src dst = call_unit (Copytree src dst) (w_copytree w src dst)"

definition temporary_directory :: "world \<Rightarrow> string \<Rightarrow> string io" where
  "temporary_directory w pre = call (TemporaryDirectory pre) (w_TemporaryDirectory w pre)"

definition launch ::
  "world \<Rightarrow> string \<Rightarrow> bool \<Rightarrow> string option \<Rightarrow> string list \<Rightarrow> proxy_settings option \<Rightarrow> handle io" where
  "launch w kind hl exe args prx = call (Launch kind hl exe args prx) (w_launch w kind hl exe args prx)"

definition new_context :: "world \<Rightarrow> handle \<Rightarrow> string option \<Rightarrow> handle io" where
  "new_context w b storage_state = call (New_context b storage_state) (w_new_context w b storage_state)"

definition lift :: "exn + 'a \<Rightarrow> 'a io" where
  "lift r s = (r, s)"

section \<open>Remote endpoints\<close>

definition setup_cdp :: "world \<Rightarrow> handle \<Rightarrow> handle io" where
  "setup_cdp w pw =
     with_self (\<lambda>self.
       case cdp_url (config self) of
         None \<Rightarrow> raise_io (Exn ValueError ''CDP URL is required'')
       | Some url \<Rightarrow>
           if url = [] then raise_io (Exn ValueError ''CDP URL is required'')
           else then_io (logger INFO (''Connecting to remote browser via CDP '' @ url))
                        (connect_over_cdp w url None))"

definition setup_wss :: "world \<Rightarrow> handle \<Rightarrow> handle io" where
  "setup_wss w pw =
     with_self (\<lambda>self.
       case wss_url (config self) of
         None \<Rightarrow> raise_io (Exn ValueError ''WSS URL is required'')
       | Some url \<Rightarrow>
           if url = [] then raise_io (Exn ValueError ''WSS URL is required'')
           else then_io (logger INFO (''Connecting to remote browser via WSS '' @ url))
                        (connect w url))"

section \<open>Attaching to a local executable\<close>

text \<open>
  The first \<open>try\<close> block of \<open>_setup_browser_with_instance\<close> and of
  \<open>_connect_to_existing_edge\<close>: \<open>Some b\<close> when the block returned the browser \<open>b\<close>,
  \<open>None\<close> when control falls through to the code after the block.
\<close>

definition probe_existing :: "world \<Rightarrow> string \<Rightarrow> unit io \<Rightarrow> handle option io" where
  "probe_existing w found on_refused =
     try_except
       (bind_io (requests_get w) (\<lambda>code.
          if code = 200 then
            then_io (logger INFO found)
           (bind_io (connect_over_cdp w debug_endpoint (Some 20000)) (\<lambda>b.
            return_io (Some b)))
          else return_io None))
       is_requests_ConnectionError
       (\<lambda>e. then_io on_refused (return_io None))"

text \<open>
  \<open>for _ in range(n)\<close> of \<open>_setup_browser_with_instance\<close>; the argument is the number
  of iterations left. The loop leaves by \<open>break\<close> on status 200 and sleeps otherwise.
\<close>

fun poll_chrome :: "world \<Rightarrow> nat \<Rightarrow> unit io" where
  "poll_chrome w 0 = return_io ()"
| "poll_chrome w (Suc n) =
     bind_io
       (try_except (bind_io (requests_get w) (\<lambda>code. return_io (code = 200)))
          is_requests_ConnectionError (\<lambda>e. return_io False))
       (\<lambda>break. if break then return_io ()
                 else then_io (asyncio_sleep 1) (poll_chrome w n))"

text \<open>The code of \<open>_setup_browser_with_instance\<close> after the first \<open>try\<close> block.\<close>

definition close_all_instances :: exn where
  "close_all_instances =
     Exn RuntimeError
   '' To start chrome in Debug mode, you need to close all existing Chrome instances and try again otherwise we can not connect to the instance.''"

definition start_chrome :: "world \<Rightarrow> string \<Rightarrow> handle io" where
  "start_chrome w path =
     with_self (\<lambda>self.
       then_io (popen w ([path, ''--remote-debugging-port=9222''] @
                         extra_chromium_args (config self)))
      (then_io (poll_chrome w 10)
               (try_except (connect_over_cdp w debug_endpoint (Some 20000)) is_Exception
                  (\<lambda>e. then_io (logger ERROR (''Failed to start a new Chrome instance.: '' @ exn_msg e))
                                (raise_io close_all_instances)))))"

definition setup_browser_with_instance :: "world \<Rightarrow> handle \<Rightarrow> handle io" where
  "setup_browser_with_instance w pw =
     with_self (\<lambda>self.
       case chrome_instance_path (config self) of
         None \<Rightarrow> raise_io (Exn ValueError ''Chrome instance path is required'')
       | Some path \<Rightarrow>
           if path = [] then raise_io (Exn ValueError ''Chrome instance path is required'')
           else
             bind_io
               (probe_existing w ''Reusing existing Chrome instance''
                  (logger DEBUG ''No existing Chrome instance found, starting a new one''))
               (\<lambda>r. case r of Some b \<Rightarrow> return_io b | None \<Rightarrow> start_chrome w path))"

section \<open>Edge: executable discovery\<close>

text \<open>The loop \<open>for path in possible_paths: if os.path.exists(path): return path\<close>.\<close>

fun first_existing :: "world \<Rightarrow> string list \<Rightarrow> string option" where
  "first_existing w [] = None"
| "first_existing w (path # paths) =
     (if w_path_exists w path then Some path else first_existing w paths)"

text \<open>
  The two Windows paths are raw strings with backslashes; \<open>backslash\<close> is that
  character (code 92).
\<close>

definition backslash :: string where
  "backslash = [CHR 0x5C]"

definition windows_paths :: "string list" where
  "windows_paths =
     [''C:'' @ backslash @ ''Program Files (x86)'' @ backslash @ ''Microsoft'' @ backslash @
        ''Edge'' @ backslash @ ''Application'' @ backslash @ ''msedge.exe'',
      ''C:'' @ backslash @ ''Program Files'' @ backslash @ ''Microsoft'' @ backslash @
        ''Edge'' @ backslash @ ''Application'' @ backslash @ ''msedge.exe'']"

definition darwin_path :: string where
  "darwin_path = ''/Applications/Microsoft Edge.app/Contents/MacOS/Microsoft Edge''"

definition linux_paths :: "string list" where
  "linux_paths =
     [''/usr/bin/microsoft-edge'', ''/usr/bin/microsoft-edge-stable'',
      ''/opt/microsoft/msedge/msedge'']"

definition not_found :: exn where
  "not_found =
     Exn FileNotFoundError
       ''Microsoft Edge executable not found. Please provide the path explicitly.''"

definition get_edge_path :: "world \<Rightarrow> exn + string" where
  "get_edge_path w =
     (let system = w_platform_system w in
      if system = ''Windows'' then
        (case first_existing w windows_paths of Some path \<Rightarrow> Inr path | None \<Rightarrow> Inl not_found)
      else if system = ''Darwin'' then Inr darwin_path
      else if system = ''Linux'' then
        (case first_existing w linux_paths of Some path \<Rightarrow> Inr path | None \<Rightarrow> Inl not_found)
      else Inl (Exn OSError (''Unsupported operating system: '' @ system)))"

section \<open>Edge: attaching to a running instance\<close>

text \<open>
  \<open>for _ in range(max_wait): ... else: raise TimeoutError\<close>; the argument is the number
  of iterations left, and the \<open>else\<close> branch is the case of none left.
\<close>

definition edge_timeout :: exn where
  "edge_timeout = Exn TimeoutError ''Failed to start Edge browser in time''"

fun poll_edge :: "world \<Rightarrow> nat \<Rightarrow> unit io" where
  "poll_edge w 0 = raise_io edge_timeout"
| "poll_edge w (Suc n) =
     bind_io
       (try_except
          (bind_io (requests_get w) (\<lambda>code.
             if code = 200 then then_io (logger INFO ''Edge started successfully'') (return_io True)
             else return_io False))
          is_requests_ConnectionError
          (\<lambda>e. then_io (time_sleep 1) (return_io False)))
       (\<lambda>break. if break then return_io () else poll_edge w n)"

text \<open>The code of \<open>_connect_to_existing_edge\<close> after the first \<open>try\<close> block.\<close>

definition start_edge :: "world \<Rightarrow> handle io" where
  "start_edge w =
     with_self (\<lambda>self.
     bind_io (lift (get_edge_path w)) (\<lambda>edge_path.
     then_io (logger INFO ''Starting Edge with remote debugging enabled'')
    (bind_io
       (case user_data_dir (config self) of
          None \<Rightarrow>
            raise_io (Exn TypeError (''can only concatenate str (not '' @ [CHR 0x22] @
                                     ''NoneType'' @ [CHR 0x22] @ '') to str''))
        | Some dir \<Rightarrow>
            return_io [edge_path, ''--remote-debugging-port=9222'', ''--user-data-dir='' @ dir,
                       ''--no-first-run''])
       (\<lambda>cmd.
     then_io (popen w cmd)
    (then_io (poll_edge w 30)
             (connect_over_cdp w debug_endpoint (Some 20000)))))))"

definition connect_to_existing_edge :: "world \<Rightarrow> handle \<Rightarrow> handle io" where
  "connect_to_existing_edge w pw =
     bind_io
       (probe_existing w ''Found existing Edge instance, connecting to it'' (return_io ()))
       (\<lambda>r. case r of Some b \<Rightarrow> return_io b | None \<Rightarrow> start_edge w)"

section \<open>Edge: temporary profile\<close>

text \<open>The two loops of \<open>_copy_cookies_from_profile\<close> and the function itself.\<close>

fun copy_cookies_files :: "world \<Rightarrow> string \<Rightarrow> string \<Rightarrow> string list \<Rightarrow> unit io" where
  "copy_cookies_files w source_profile target_profile [] = return_io ()"
| "copy_cookies_files w source_profile target_profile (file_path # rest) =
     then_io
       (if w_path_exists w file_path then
          (let target_dir =
                 w_path_join w target_profile
                   [lstrip (w_os_sep w) (w_dirname w (py_replace file_path source_profile []))]
           in then_io (makedirs w target_dir)
                (try_except
                   (then_io (copy2 w file_path (w_path_join w target_dir [w_basename w file_path]))
                            (logger INFO (''Copied cookies from '' @ file_path)))
                   is_Exception
                   (\<lambda>e. logger WARNING (''Failed to copy cookies: '' @ exn_msg e))))
        else return_io ())
       (copy_cookies_files w source_profile target_profile rest)"

fun copy_local_storage :: "world \<Rightarrow> string \<Rightarrow> string \<Rightarrow> string list \<Rightarrow> unit io" where
  "copy_local_storage w source_profile target_profile [] = return_io ()"
| "copy_local_storage w source_profile target_profile (ls_path # rest) =
     then_io
       (if w_path_exists w ls_path \<and> w_path_isdir w ls_path then
          (let target_ls_dir =
                 w_path_join w target_profile
                   [lstrip (w_os_sep w) (py_replace ls_path source_profile [])]
           in try_except
                (then_io (makedirs w (w_dirname w target_ls_dir))
                (then_io (copytree w ls_path target_ls_dir)
                         (logger INFO (''Copied local storage from '' @ ls_path))))
                is_Exception
                (\<lambda>e. logger WARNING (''Failed to copy local storage: '' @ exn_msg e)))
        else return_io ())
       (copy_local_storage w source_profile target_profile rest)"

definition copy_cookies_from_profile :: "world \<Rightarrow> string \<Rightarrow> string \<Rightarrow> unit io" where
  "copy_cookies_from_profile w source_profile target_profile =
     then_io (makedirs w target_profile)
    (then_io
       (copy_cookies_files w source_profile target_profile
          [w_path_join w source_profile [''Default'', ''Cookies''],
           w_path_join w source_profile [''Default'', ''Network'', ''Cookies''],
           w_path_join w source_profile [''Cookies'']])
       (copy_local_storage w source_profile target_profile
          [w_path_join w source_profile [''Default'', ''Local Storage''],
           w_path_join w source_profile [''Local Storage'']]))"

definition get_storage_state_path :: "world \<Rightarrow> string \<Rightarrow> string option" where
  "get_storage_state_path w profile_dir =
     (case w_glob w (w_path_join w profile_dir [''**'', ''Cookies'']) of
        [] \<Rightarrow> None
      | cookies_file # _ \<Rightarrow> Some (w_dirname w cookies_file))"

section \<open>Standard launch and strategy selection\<close>

definition launch_args :: "string list" where
  "launch_args =
     [''--no-sandbox'', ''--disable-blink-features=AutomationControlled'',
      ''--disable-infobars'', ''--disable-background-timer-throttling'',
      ''--disable-popup-blocking'', ''--disable-backgrounding-occluded-windows'',
      ''--disable-renderer-backgrounding'', ''--disable-window-activation'',
      ''--disable-focus-on-load'', ''--no-first-run'', ''--no-default-browser-check'',
      ''--no-startup-window'', ''--window-position=0,0'']"

text \<open>The branch \<open>if self.config.user_data_dir:\<close> of the \<open>msedge\<close> kind.\<close>

definition launch_edge_with_profile :: "world \<Rightarrow> string \<Rightarrow> string \<Rightarrow> handle io" where
  "launch_edge_with_profile w edge_path dir =
     with_self (\<lambda>self.
     then_io (logger INFO (''Launching Microsoft Edge with user data directory: '' @ dir))
    (bind_io (temporary_directory w ''edge_profile_'') (\<lambda>temp_user_data_dir.
     then_io (modify (\<lambda>s. s\<lparr>temp_dir := Some temp_user_data_dir\<rparr>))
    (then_io (copy_cookies_from_profile w dir temp_user_data_dir)
    (then_io (logger INFO (''Created temporary profile at: '' @ temp_user_data_dir))
    (bind_io
       (launch w ''chromium'' (headless (config self)) (Some edge_path)
          (launch_args @ extra_chromium_args (config self) @
             [''--no-private-window'', ''--no-incognito''])
          (proxy (config self)))
       (\<lambda>b.
     bind_io (new_context w b (get_storage_state_path w temp_user_data_dir)) (\<lambda>context.
     then_io (modify (\<lambda>s. s\<lparr>browser_context := Some context\<rparr>))
             (return_io b)))))))))"

text \<open>The branch without a user-data directory of the \<open>msedge\<close> kind.\<close>

definition launch_edge_disposable :: "world \<Rightarrow> string \<Rightarrow> handle io" where
  "launch_edge_disposable w edge_path =
     with_self (\<lambda>self.
     bind_io (temporary_directory w ''edge_profile_'') (\<lambda>name.
     bind_io
       (launch w ''chromium'' (headless (config self)) (Some edge_path)
          ((launch_args @ disable_security_args self) @ extra_chromium_args (config self) @
             [''--user-data-dir='' @ name])
          (proxy (config self)))
       (\<lambda>b.
     then_io (modify (\<lambda>s. s\<lparr>temp_dir := Some name\<rparr>))
             (return_io b))))"

text \<open>The branch of all other kinds: the launcher is looked up by name on the engine.\<close>

definition launch_other :: "world \<Rightarrow> handle io" where
  "launch_other w =
     with_self (\<lambda>self.
       case (case w_getattr w (browser_type (config self)) of
               None \<Rightarrow> Browser_type ''chromium'' | Some attr \<Rightarrow> attr) of
         Other_attr ty \<Rightarrow>
           raise_io (Exn AttributeError ([CHR 0x27] @ ty @ [CHR 0x27] @
                                         '' object has no attribute '' @
                                         [CHR 0x27] @ ''launch'' @ [CHR 0x27]))
       | Browser_type kind \<Rightarrow>
           launch w kind (headless (config self)) None
             (launch_args @ disable_security_args self @ extra_chromium_args (config self))
             (proxy (config self)))"

definition setup_standard_browser :: "world \<Rightarrow> handle \<Rightarrow> handle io" where
  "setup_standard_browser w pw =
     with_self (\<lambda>self.
       if browser_type (config self) = ''msedge'' then
         if use_existing_browser (config self) \<and> truthy (user_data_dir (config self))
         then connect_to_existing_edge w pw
         else
           bind_io (lift (get_edge_path w)) (\<lambda>edge_path.
             case user_data_dir (config self) of
               None \<Rightarrow> launch_edge_disposable w edge_path
             | Some dir \<Rightarrow>
                 if dir = [] then launch_edge_disposable w edge_path
                 else launch_edge_with_profile w edge_path dir)
       else launch_other w)"

definition setup_browser :: "world \<Rightarrow> handle \<Rightarrow> handle io" where
  "setup_browser w pw =
     with_self (\<lambda>self.
       try_except
         (if truthy (cdp_url (config self)) then setup_cdp w pw
          else if truthy (wss_url (config self)) then setup_wss w pw
          else if truthy (chrome_instance_path (config self))
          then setup_browser_with_instance w pw
          else setup_standard_browser w pw)
         is_Exception
         (\<lambda>e. then_io (logger ERROR (''Failed to initialize Playwright browser: '' @ exn_msg e))
                       (raise_io e)))"

text \<open>
  \<open>_init\<close> (its decorator \<open>time_execution_async\<close> only measures and logs the duration)
  and \<open>get_playwright_browser\<close>.
\<close>

definition init :: "world \<Rightarrow> handle io" where
  "init w =
     bind_io (call Async_playwright_start (w_async_playwright_start w)) (\<lambda>pw.
     bind_io (setup_browser w pw) (\<lambda>b.
     then_io (modify (\<lambda>s. s\<lparr>playwright := Some pw, playwright_browser := Some b\<rparr>))
             (return_io b)))"

definition get_playwright_browser :: "world \<Rightarrow> handle io" where
  "get_playwright_browser w =
     with_self (\<lambda>self.
       case playwright_browser self of None \<Rightarrow> init w | Some b \<Rightarrow> return_io b)"

section \<open>Observing a run\<close>

text \<open>The actions that a call appended to the trace.\<close>

definition new_events :: "run \<Rightarrow> run \<Rightarrow> event list" where
  "new_events s s' = drop (length (trace s)) (trace s')"

text \<open>
  The actions by which a connection strategy reaches for a browser: connecting, probing,
  spawning, sleeping, launching and preparing a profile. Logging, the start of the engine
  and the teardown calls are not among them.
\<close>

fun is_strategy_action :: "event \<Rightarrow> bool" where
  "is_strategy_action (Connect_over_cdp url timeout) = True"
| "is_strategy_action (Connect url) = True"
| "is_strategy_action (Requests_get url timeout) = True"
| "is_strategy_action (Popen cmd) = True"
| "is_strategy_action (Asyncio_sleep n) = True"
| "is_strategy_action (Time_sleep n) = True"
| "is_strategy_action (Launch kind hl exe args prx) = True"
| "is_strategy_action (New_context b storage_state) = True"
| "is_strategy_action (TemporaryDirectory pre) = True"
| "is_strategy_action (Makedirs path) = True"
| "is_strategy_action (Copy2 src dst) = True"
| "is_strategy_action (Copytree src dst) = True"
| "is_strategy_action ev = False"

definition strategy_actions :: "run \<Rightarrow> run \<Rightarrow> event list" where
  "strategy_actions s s' = filter is_strategy_action (new_events s s')"

text \<open>The actions of the profile copy.\<close>

fun is_profile_copy_event :: "event \<Rightarrow> bool" where
  "is_profile_copy_event (Makedirs path) = True"
| "is_profile_copy_event (Copy2 src dst) = True"
| "is_profile_copy_event (Copytree src dst) = True"
| "is_profile_copy_event (Log l msg) = True"
| "is_profile_copy_event ev = False"

text \<open>The line that \<open>_setup_browser\<close> logs before it re-raises.\<close>

definition init_failure_log :: "exn + 'a \<Rightarrow> event list" where
  "init_failure_log r =
     (case r of
        Inl e \<Rightarrow> [Log ERROR (''Failed to initialize Playwright browser: '' @ exn_msg e)]
      | Inr x \<Rightarrow> [])"

text \<open>A teardown step whose handle is absent, or whose call returned without raising.\<close>

definition step_ok :: "('a \<Rightarrow> exn option) \<Rightarrow> 'a option \<Rightarrow> bool" where
  "step_ok f h = (case h of None \<Rightarrow> True | Some x \<Rightarrow> f x = None)"

text \<open>A line logged at debug level.\<close>

fun is_debug_log :: "event \<Rightarrow> bool" where
  "is_debug_log (Log DEBUG msg) = True"
| "is_debug_log ev = False"

text \<open>An answer of the probe that does not show a reachable browser.\<close>

fun unreachable :: "probe \<Rightarrow> bool" where
  "unreachable (Response code) = (code \<noteq> 200)"
| "unreachable (Raises e) = is_requests_ConnectionError e"

text \<open>An answer of the probe with a status other than 200.\<close>

fun other_status :: "probe \<Rightarrow> bool" where
  "other_status (Response code) = (code \<noteq> 200)"
| "other_status (Raises e) = False"


text \<open>
  The probe performed as action number \<open>t\<close> of a run raised \<open>e\<close>, and \<open>e\<close> is no
  \<open>requests.ConnectionError\<close>.
\<close>

definition probe_raised :: "world \<Rightarrow> event list \<Rightarrow> nat \<Rightarrow> exn \<Rightarrow> bool" where
  "probe_raised w tr t e =
     (t < length tr \<and> tr ! t = Requests_get version_url 2 \<and>
      w_requests_get w t = Raises e \<and> \<not> is_requests_ConnectionError e)"

section \<open>Invariants of computations\<close>

text \<open>
  A computation that only appends actions from a given class to the trace, and one that
  moreover returns without raising.
\<close>

definition only_appends :: "(event \<Rightarrow> bool) \<Rightarrow> 'a io \<Rightarrow> bool" where
  "only_appends P m =
     (\<exists>r evs. list_all P evs \<and> (\<forall>s. m s = (r, s\<lparr>trace := trace s @ evs\<rparr>)))"

definition returns :: "'a io \<Rightarrow> bool" where
  "returns m = (\<forall>s. \<exists>x. fst (m s) = Inr x)"

text \<open>
  A run from \<open>s\<close> with outcome \<open>rs\<close> extends the trace, and if one of its probes raised
  such an \<open>e\<close>, the run raised \<open>e\<close> and performed no strategy action after that probe.
\<close>

definition faithful_at :: "world \<Rightarrow> run \<Rightarrow> (exn + 'a) \<times> run \<Rightarrow> bool" where
  "faithful_at w s rs =
     ((\<exists>evs. trace (snd rs) = trace s @ evs) \<and>
      (\<forall>t e. length (trace s) \<le> t \<and> probe_raised w (trace (snd rs)) t e \<longrightarrow>
         fst rs = Inl e \<and>
         filter is_strategy_action (drop (Suc t) (trace (snd rs))) = []))"

definition faithful :: "world \<Rightarrow> 'a io \<Rightarrow> bool" where
  "faithful w m = (\<forall>s. faithful_at w s (m s))"

section \<open>Concrete environments\<close>

text \<open>
  A Linux machine on which nothing listens on port 9222, no known path exists, and every
  call into the engine and the file system succeeds. Concrete runs vary single fields.
\<close>

definition linux_world :: world where
  "linux_world =
     \<lparr>w_async_playwright_start = Inr 1,
      w_connect_over_cdp = (\<lambda>url timeout. Inr 2),
      w_connect = (\<lambda>url. Inr 2),
      w_requests_get = (\<lambda>t. Raises (Exn Requests_ConnectionError ''Connection refused'')),
      w_popen = (\<lambda>cmd. None),
      w_platform_system = ''Linux'',
      w_path_exists = (\<lambda>path. False),
      w_path_isdir = (\<lambda>path. False),
      w_os_sep = ''/'',
      w_path_join = posix_join,
      w_dirname = posix_dirname,
      w_basename = posix_basename,
      w_TemporaryDirectory = (\<lambda>pre. Inr (''/tmp/'' @ pre @ ''k3x9'')),
      w_makedirs = (\<lambda>path. None),
      w_copy2 = (\<lambda>src dst. None),
      w_copytree = (\<lambda>src dst. None),
      w_glob = (\<lambda>pattern. []),
      w_getattr = (\<lambda>name. if name = ''chromium'' \<or> name = ''firefox'' \<or> name = ''webkit''
                            then Some (Browser_type name) else None),
      w_launch = (\<lambda>kind hl exe args prx. Inr 2),
      w_new_context = (\<lambda>b storage_state. Inr 3),
      w_context_close = (\<lambda>c. None),
      w_browser_close = (\<lambda>b. None),
      w_playwright_stop = (\<lambda>p. None),
      w_cleanup = (\<lambda>d. None)\<rparr>"




definition edge_installed :: world where
  "edge_installed = linux_world\<lparr>w_path_exists := (\<lambda>path. path = ''/usr/bin/microsoft-edge-stable'')\<rparr>"

definition profile_world :: world where
  "profile_world =
     linux_world\<lparr>w_path_exists :=
         (\<lambda>path. path = ''/usr/bin/microsoft-edge-stable'' \<or>
                  path = ''/home/u/edge/Default/Cookies''),
       w_glob := (\<lambda>pattern. if pattern = ''/tmp/edge_profile_k3x9/**/Cookies''
                             then [''/tmp/edge_profile_k3x9/Default/Cookies''] else [])\<rparr>"

definition cookie_dir_fails :: world where
  "cookie_dir_fails =
     linux_world\<lparr>w_path_exists := (\<lambda>path. path = ''/home/u/edge/Default/Cookies''),
       w_makedirs :=
         (\<lambda>path. if path = ''/tmp/edge_profile_k3x9/Default''
                  then Some (Exn OSError ''[Errno 28] No space left on device'') else None)\<rparr>"



definition status_404 :: world where
  "status_404 = edge_installed\<lparr>w_requests_get := (\<lambda>t. Response 404)\<rparr>"

definition read_timeout :: exn where
  "read_timeout = Exn Requests_ReadTimeout ''Read timed out. (read timeout=2)''"

definition probe_times_out :: world where
  "probe_times_out = linux_world\<lparr>w_requests_get := (\<lambda>t. Raises read_timeout)\<rparr>"

definition times_out_while_polling :: world where
  "times_out_while_polling =
     linux_world\<lparr>w_requests_get :=
       (\<lambda>t. if t < 7 then Raises (Exn Requests_ConnectionError ''Connection refused'')
             else Raises read_timeout)\<rparr>"

definition context_close_fails :: world where
  "context_close_fails =
     linux_world\<lparr>w_context_close := (\<lambda>c. Some (Exn Playwright_Error ''Target closed''))\<rparr>"

text \<open>Configurations, and a manager that holds all four handles.\<close>

definition cdp_config :: browser_config where
  "cdp_config = BrowserConfig\<lparr>cdp_url := Some ''http://localhost:9223/json/version''\<rparr>"

definition ws_config :: browser_config where
  "ws_config = BrowserConfig\<lparr>wss_url := Some ''ws://remote:3000/playwright''\<rparr>"

definition chrome_config :: browser_config where
  "chrome_config = BrowserConfig\<lparr>chrome_instance_path := Some ''/usr/bin/google-chrome''\<rparr>"

definition edge_reuse_config :: browser_config where
  "edge_reuse_config =
     BrowserConfig\<lparr>browser_type := ''msedge'', user_data_dir := Some ''/home/u/edge'',
       use_existing_browser := True\<rparr>"

definition edge_profile_config :: browser_config where
  "edge_profile_config =
     BrowserConfig\<lparr>browser_type := ''msedge'', user_data_dir := Some ''/home/u/edge''\<rparr>"

definition keep_alive_config :: browser_config where
  "keep_alive_config = BrowserConfig\<lparr>force_keep_browser_alive := True\<rparr>"

definition live :: "browser_config \<Rightarrow> run" where
  "live cfg =
     (Browser_init cfg)\<lparr>playwright := Some 1, playwright_browser := Some 2,
        browser_context := Some 3, temp_dir := Some ''/tmp/edge_profile_k3x9''\<rparr>"

section \<open>Properties\<close>

subsection \<open>Teardown\<close>

lemmas io_defs = return_io_def raise_io_def bind_io_def then_io_def try_except_def
  try_finally_def with_self_def is_Exception_def emit_def logger_def call_def call_unit_def
  modify_def

lemmas close_defs = close_def close_body_def close_finally_def close_context_def
  close_playwright_browser_def stop_playwright_def cleanup_temp_dir_def

lemmas concrete_defs = live_def Browser_init_def BrowserConfig_def linux_world_def

lemmas setup_defs = get_playwright_browser_def init_def setup_browser_def

lemmas prim_defs = requests_get_def connect_over_cdp_def connect_def popen_def
  asyncio_sleep_def time_sleep_def makedirs_def copy2_def copytree_def
  temporary_directory_def launch_def new_context_def lift_def now_def

lemma close_returns: "fst (close w s) = Inr ()"
  by (simp add: close_defs io_defs split: option.splits sum.splits prod.splits)

lemma close_clears:
  "playwright (snd (close w s)) = None \<and> playwright_browser (snd (close w s)) = None \<and>
   browser_context (snd (close w s)) = None \<and> temp_dir (snd (close w s)) = None"
  by (simp add: close_defs io_defs split: option.splits sum.splits prod.splits)

lemma close_cleared:
  "playwright s = None \<Longrightarrow> playwright_browser s = None \<Longrightarrow> browser_context s = None \<Longrightarrow>
   temp_dir s = None \<Longrightarrow> close w s = (Inr (), emit Gc_collect s)"
  by (simp add: close_defs io_defs split: option.splits sum.splits prod.splits)

lemma close_events:
  "\<not> force_keep_browser_alive (config s) \<Longrightarrow>
   new_events s (snd (close w s)) =
     (case browser_context s of None \<Rightarrow> [] | Some c \<Rightarrow> [Context_close c]) @
     (if step_ok (w_context_close w) (browser_context s) then
        (case playwright_browser s of None \<Rightarrow> [] | Some b \<Rightarrow> [Browser_close b]) @
        (if step_ok (w_browser_close w) (playwright_browser s) then
           (case playwright s of None \<Rightarrow> [] | Some p \<Rightarrow> [Playwright_stop p]) @
           (if step_ok (w_playwright_stop w) (playwright s) then
              (case temp_dir s of None \<Rightarrow> [] | Some d \<Rightarrow>
                 Tempdir_cleanup d #
                 (case w_cleanup w d of None \<Rightarrow> []
                  | Some e \<Rightarrow> [Log DEBUG (''Failed to clean up temporary directory: '' @ exn_msg e)]))
            else (case playwright s of None \<Rightarrow> [] | Some p \<Rightarrow> (case w_playwright_stop w p of None \<Rightarrow> [] | Some e \<Rightarrow>
                    [Log DEBUG (''Failed to close browser properly: '' @ exn_msg e)])))
         else (case playwright_browser s of None \<Rightarrow> [] | Some b \<Rightarrow> (case w_browser_close w b of None \<Rightarrow> [] | Some e \<Rightarrow>
                    [Log DEBUG (''Failed to close browser properly: '' @ exn_msg e)])))
      else (case browser_context s of None \<Rightarrow> [] | Some c \<Rightarrow> (case w_context_close w c of None \<Rightarrow> [] | Some e \<Rightarrow>
                    [Log DEBUG (''Failed to close browser properly: '' @ exn_msg e)]))) @
     [Gc_collect]"
  by (cases "browser_context s"; cases "playwright_browser s"; cases "playwright s"; cases "temp_dir s";
      simp add: close_defs io_defs new_events_def step_ok_def split: option.splits)

text \<open>
  Claim C2. For every manager state and every environment, \<open>close\<close> returns without
  raising and leaves the engine handle, the browser handle, the context and the temporary
  directory absent, whatever the teardown calls did; this holds for either value of the
  keep-alive flag. A second \<open>close\<close>, in any environment \<open>w'\<close>, again returns without
  raising and changes nothing: it only records its call of \<open>gc.collect()\<close>.
\<close>

theorem close_twice:
  "fst (close w s) = Inr () \<and>
   playwright (snd (close w s)) = None \<and> playwright_browser (snd (close w s)) = None \<and>
   browser_context (snd (close w s)) = None \<and> temp_dir (snd (close w s)) = None \<and>
   close w' (snd (close w s)) = (Inr (), emit Gc_collect (snd (close w s)))"
  using close_returns close_clears close_cleared by blast

text \<open>
  Claim C3, amended. With the keep-alive flag off, \<open>close\<close> never raises, and a teardown
  call is attempted exactly when its handle is present and every earlier call that was due
  returned without raising: the context first, then the browser, the engine and the
  temporary directory. A debug message is logged exactly when one of the attempted calls
  raised. So a failure of an earlier call is caught and logged, but it ends the sequence;
  only the removal of the temporary directory has a guard of its own.
\<close>

theorem close_teardown_order:
  assumes "\<not> force_keep_browser_alive (config s)"
  shows "fst (close w s) = Inr () \<and>
    (Context_close c \<in> set (new_events s (snd (close w s))) \<longleftrightarrow> browser_context s = Some c) \<and>
    (Browser_close b \<in> set (new_events s (snd (close w s))) \<longleftrightarrow>
       playwright_browser s = Some b \<and> step_ok (w_context_close w) (browser_context s)) \<and>
    (Playwright_stop p \<in> set (new_events s (snd (close w s))) \<longleftrightarrow>
       playwright s = Some p \<and> step_ok (w_context_close w) (browser_context s) \<and>
       step_ok (w_browser_close w) (playwright_browser s)) \<and>
    (Tempdir_cleanup d \<in> set (new_events s (snd (close w s))) \<longleftrightarrow>
       temp_dir s = Some d \<and> step_ok (w_context_close w) (browser_context s) \<and>
       step_ok (w_browser_close w) (playwright_browser s) \<and>
       step_ok (w_playwright_stop w) (playwright s)) \<and>
    (list_ex is_debug_log (new_events s (snd (close w s))) \<longleftrightarrow>
       \<not> (step_ok (w_context_close w) (browser_context s) \<and>
          step_ok (w_browser_close w) (playwright_browser s) \<and>
          step_ok (w_playwright_stop w) (playwright s) \<and>
          step_ok (w_cleanup w) (temp_dir s)))"
proof -
  note ev = close_events [OF assms, of w]
  have 1: "Context_close c \<in> set (new_events s (snd (close w s))) \<longleftrightarrow> browser_context s = Some c"
    unfolding ev by (auto simp: step_ok_def split: option.splits)
  have 2: "Browser_close b \<in> set (new_events s (snd (close w s))) \<longleftrightarrow>
       playwright_browser s = Some b \<and> step_ok (w_context_close w) (browser_context s)"
    unfolding ev by (auto simp: step_ok_def split: option.splits)
  have 3: "Playwright_stop p \<in> set (new_events s (snd (close w s))) \<longleftrightarrow>
       playwright s = Some p \<and> step_ok (w_context_close w) (browser_context s) \<and>
       step_ok (w_browser_close w) (playwright_browser s)"
    unfolding ev by (auto simp: step_ok_def split: option.splits)
  have 4: "Tempdir_cleanup d \<in> set (new_events s (snd (close w s))) \<longleftrightarrow>
       temp_dir s = Some d \<and> step_ok (w_context_close w) (browser_context s) \<and>
       step_ok (w_browser_close w) (playwright_browser s) \<and>
       step_ok (w_playwright_stop w) (playwright s)"
    unfolding ev by (auto simp: step_ok_def split: option.splits)
  have 5: "list_ex is_debug_log (new_events s (snd (close w s))) \<longleftrightarrow>
       \<not> (step_ok (w_context_close w) (browser_context s) \<and>
          step_ok (w_browser_close w) (playwright_browser s) \<and>
          step_ok (w_playwright_stop w) (playwright s) \<and>
          step_ok (w_cleanup w) (temp_dir s))"
    unfolding ev by (auto simp: step_ok_def split: option.splits)
  from close_returns 1 2 3 4 5 show ?thesis by blast
qed

text \<open>
  Claim C3, a run of the amended statement: the context fails to close; the call is
  attempted and logged, the browser is not closed.
\<close>

theorem close_teardown_order_witness:
  "\<not> force_keep_browser_alive (config (live BrowserConfig)) \<and>
   fst (close context_close_fails (live BrowserConfig)) = Inr () \<and>
   Context_close 3 \<in> set (new_events (live BrowserConfig)
      (snd (close context_close_fails (live BrowserConfig)))) \<and>
   Browser_close 2 \<notin> set (new_events (live BrowserConfig)
      (snd (close context_close_fails (live BrowserConfig)))) \<and>
   list_ex is_debug_log (new_events (live BrowserConfig)
      (snd (close context_close_fails (live BrowserConfig))))"
proof -
  have h: "\<not> force_keep_browser_alive (config (live BrowserConfig))"
    by (simp add: concrete_defs)
  show ?thesis
    using h close_teardown_order [OF h, of context_close_fails 3 2 1 "''/tmp/edge_profile_k3x9''"]
    by (simp add: concrete_defs context_close_fails_def step_ok_def)
qed

text \<open>
  Claim C3 as stated fails: with all four handles present and a context whose \<open>close\<close>
  raises, teardown does not proceed through the remaining steps. Neither the browser, nor
  the engine, nor the temporary directory is touched.
\<close>

theorem close_skips_remaining_steps:
  "\<not> force_keep_browser_alive (config (live BrowserConfig)) \<and>
   playwright_browser (live BrowserConfig) = Some 2 \<and>
   temp_dir (live BrowserConfig) = Some ''/tmp/edge_profile_k3x9'' \<and>
   new_events (live BrowserConfig) (snd (close context_close_fails (live BrowserConfig))) =
     [Context_close 3, Log DEBUG ''Failed to close browser properly: Target closed'',
      Gc_collect]"
  by (simp add: close_defs io_defs new_events_def concrete_defs context_close_fails_def)

text \<open>
  Claim C4, amended. With the keep-alive flag on, \<open>close\<close> makes none of the four
  teardown calls and does not raise, but its \<open>finally\<close> block still runs: all four
  handles are set to absent. The configuration and the rest of the state are unchanged.
\<close>

theorem keep_alive_close:
  assumes "force_keep_browser_alive (config s)"
  shows "close w s =
     (Inr (), s\<lparr>browser_context := None, playwright_browser := None, playwright := None,
                temp_dir := None, trace := trace s @ [Gc_collect]\<rparr>) \<and>
     filter is_teardown (new_events s (snd (close w s))) = []"
  using assms by (simp add: close_defs io_defs new_events_def)

text \<open>
  Claim C4, a run of the amended statement on a manager that holds all four handles.
\<close>

theorem keep_alive_close_witness:
  "force_keep_browser_alive (config (live keep_alive_config)) \<and>
   fst (close linux_world (live keep_alive_config)) = Inr () \<and>
   filter is_teardown
     (new_events (live keep_alive_config) (snd (close linux_world (live keep_alive_config)))) = []"
proof -
  have h: "force_keep_browser_alive (config (live keep_alive_config))"
    by (simp add: concrete_defs keep_alive_config_def)
  show ?thesis
    using h keep_alive_close [OF h, of linux_world] by (simp add: new_events_def)
qed

text \<open>
  Claim C4 as stated fails: with the keep-alive flag on, the browser handle held before
  \<open>close\<close> is absent afterwards.
\<close>

theorem keep_alive_clears_handles:
  "force_keep_browser_alive (config (live keep_alive_config)) \<and>
   playwright_browser (live keep_alive_config) = Some 2 \<and>
   playwright_browser (snd (close linux_world (live keep_alive_config))) = None"
  by (simp add: close_defs io_defs concrete_defs keep_alive_config_def)


subsection \<open>Executable discovery\<close>






subsection \<open>Strategy selection\<close>

lemma init_cdp:
  assumes "playwright_browser s = None" "w_async_playwright_start w = Inr pw"
    "cdp_url (config s) = Some url" "url \<noteq> []"
  shows "fst (get_playwright_browser w s) = w_connect_over_cdp w url None \<and>
    trace (snd (get_playwright_browser w s)) =
      trace s @ [Async_playwright_start, Log INFO (''Connecting to remote browser via CDP '' @ url),
                 Connect_over_cdp url None] @ init_failure_log (w_connect_over_cdp w url None)"
  using assms
  by (cases "w_connect_over_cdp w url None")
     (simp_all add: setup_defs setup_cdp_def connect_over_cdp_def io_defs init_failure_log_def)

lemma init_wss:
  assumes "playwright_browser s = None" "w_async_playwright_start w = Inr pw"
    "\<not> truthy (cdp_url (config s))" "wss_url (config s) = Some url" "url \<noteq> []"
  shows "fst (get_playwright_browser w s) = w_connect w url \<and>
    trace (snd (get_playwright_browser w s)) =
      trace s @ [Async_playwright_start, Log INFO (''Connecting to remote browser via WSS '' @ url),
                 Connect url] @ init_failure_log (w_connect w url)"
  using assms
  by (cases "w_connect w url")
     (simp_all add: setup_defs setup_wss_def connect_def io_defs init_failure_log_def)

lemma init_other:
  assumes "playwright_browser s = None" "w_async_playwright_start w = Inr pw"
    "\<not> truthy (cdp_url (config s))" "\<not> truthy (wss_url (config s))"
  shows "fst (get_playwright_browser w s) =
      fst ((if truthy (chrome_instance_path (config s)) then setup_browser_with_instance w pw
            else setup_standard_browser w pw) (emit Async_playwright_start s)) \<and>
    trace (snd (get_playwright_browser w s)) =
      trace (snd ((if truthy (chrome_instance_path (config s)) then setup_browser_with_instance w pw
            else setup_standard_browser w pw) (emit Async_playwright_start s))) @
      init_failure_log (fst (get_playwright_browser w s))"
  using assms
  by (simp add: setup_defs io_defs init_failure_log_def split: prod.splits sum.splits)

lemma filter_init_failure_log [simp]:
  "filter is_strategy_action (init_failure_log r) = []"
  by (simp add: init_failure_log_def split: sum.splits)

text \<open>
  Claim C1. Let \<open>get_playwright_browser\<close> initialise (no browser handle yet) and let the
  engine have started. With a CDP endpoint set, the strategy actions of the call are
  exactly one CDP connection to that endpoint: no WebSocket connection, no probe, no spawn,
  no launch. With only a WebSocket endpoint set they are exactly one WebSocket connection
  to it. With neither, the call returns what \<open>_setup_browser_with_instance\<close> returns
  when an executable path is set, and what \<open>_setup_standard_browser\<close> returns otherwise,
  and its trace is that of the chosen path, followed by the error log line when the path
  raised. An endpoint or path is set when it is neither \<open>None\<close> nor empty.
\<close>

theorem strategy_selection:
  assumes "playwright_browser s = None" and "w_async_playwright_start w = Inr pw"
  shows
    "(truthy (cdp_url (config s)) \<longrightarrow>
        (\<exists>url. cdp_url (config s) = Some url \<and>
           strategy_actions s (snd (get_playwright_browser w s)) = [Connect_over_cdp url None])) \<and>
     (\<not> truthy (cdp_url (config s)) \<and> truthy (wss_url (config s)) \<longrightarrow>
        (\<exists>url. wss_url (config s) = Some url \<and>
           strategy_actions s (snd (get_playwright_browser w s)) = [Connect url])) \<and>
     (\<not> truthy (cdp_url (config s)) \<and> \<not> truthy (wss_url (config s)) \<longrightarrow>
        fst (get_playwright_browser w s) =
          fst ((if truthy (chrome_instance_path (config s)) then setup_browser_with_instance w pw
                else setup_standard_browser w pw) (emit Async_playwright_start s)) \<and>
        trace (snd (get_playwright_browser w s)) =
          trace (snd ((if truthy (chrome_instance_path (config s))
                       then setup_browser_with_instance w pw
                       else setup_standard_browser w pw) (emit Async_playwright_start s))) @
          init_failure_log (fst (get_playwright_browser w s)))"
proof -
  have cdp: "strategy_actions s (snd (get_playwright_browser w s)) = [Connect_over_cdp url None]"
    if "cdp_url (config s) = Some url" "url \<noteq> []" for url
    using init_cdp [OF assms that]
    by (simp add: strategy_actions_def new_events_def init_failure_log_def split: sum.splits)
  have wss: "strategy_actions s (snd (get_playwright_browser w s)) = [Connect url]"
    if "\<not> truthy (cdp_url (config s))" "wss_url (config s) = Some url" "url \<noteq> []" for url
    using init_wss [OF assms that]
    by (simp add: strategy_actions_def new_events_def init_failure_log_def split: sum.splits)
  have 1: "truthy (cdp_url (config s)) \<longrightarrow>
        (\<exists>url. cdp_url (config s) = Some url \<and>
           strategy_actions s (snd (get_playwright_browser w s)) = [Connect_over_cdp url None])"
    using cdp by (cases "cdp_url (config s)") simp_all
  have 2: "\<not> truthy (cdp_url (config s)) \<and> truthy (wss_url (config s)) \<longrightarrow>
        (\<exists>url. wss_url (config s) = Some url \<and>
           strategy_actions s (snd (get_playwright_browser w s)) = [Connect url])"
    using wss by (cases "wss_url (config s)") simp_all
  from 1 2 init_other [OF assms] show ?thesis by blast
qed


text \<open>
  Claim C1, runs: a configuration with a CDP endpoint, one with a WebSocket endpoint, one
  with an executable path, and the default configuration.
\<close>

theorem strategy_selection_witness:
  "playwright_browser (Browser_init cdp_config) = None \<and>
   w_async_playwright_start linux_world = Inr 1 \<and>
   truthy (cdp_url (config (Browser_init cdp_config))) \<and>
   strategy_actions (Browser_init cdp_config)
     (snd (get_playwright_browser linux_world (Browser_init cdp_config))) =
     [Connect_over_cdp ''http://localhost:9223/json/version'' None] \<and>
   truthy (wss_url (config (Browser_init ws_config))) \<and>
   strategy_actions (Browser_init ws_config)
     (snd (get_playwright_browser linux_world (Browser_init ws_config))) =
     [Connect ''ws://remote:3000/playwright''] \<and>
   fst (get_playwright_browser linux_world (Browser_init chrome_config)) =
     fst (setup_browser_with_instance linux_world 1
            (emit Async_playwright_start (Browser_init chrome_config))) \<and>
   fst (get_playwright_browser linux_world (Browser_init BrowserConfig)) =
     fst (setup_standard_browser linux_world 1
            (emit Async_playwright_start (Browser_init BrowserConfig)))"
proof -
  have start: "w_async_playwright_start linux_world = Inr 1"
    by (simp add: linux_world_def)
  have cdp: "playwright_browser (Browser_init cdp_config) = None"
    "truthy (cdp_url (config (Browser_init cdp_config)))"
    "cdp_url (config (Browser_init cdp_config)) = Some ''http://localhost:9223/json/version''"
    by (simp_all add: Browser_init_def BrowserConfig_def cdp_config_def)
  have ws: "playwright_browser (Browser_init ws_config) = None"
    "\<not> truthy (cdp_url (config (Browser_init ws_config)))"
    "truthy (wss_url (config (Browser_init ws_config)))"
    "wss_url (config (Browser_init ws_config)) = Some ''ws://remote:3000/playwright''"
    by (simp_all add: Browser_init_def BrowserConfig_def ws_config_def)
  have chrome: "playwright_browser (Browser_init chrome_config) = None"
    "\<not> truthy (cdp_url (config (Browser_init chrome_config)))"
    "\<not> truthy (wss_url (config (Browser_init chrome_config)))"
    "truthy (chrome_instance_path (config (Browser_init chrome_config)))"
    by (simp_all add: Browser_init_def BrowserConfig_def chrome_config_def)
  have std: "playwright_browser (Browser_init BrowserConfig) = None"
    "\<not> truthy (cdp_url (config (Browser_init BrowserConfig)))"
    "\<not> truthy (wss_url (config (Browser_init BrowserConfig)))"
    "\<not> truthy (chrome_instance_path (config (Browser_init BrowserConfig)))"
    by (simp_all add: Browser_init_def BrowserConfig_def)
  show ?thesis
    using start cdp ws chrome std
      strategy_selection [OF cdp(1) start] strategy_selection [OF ws(1) start]
      strategy_selection [OF chrome(1) start] strategy_selection [OF std(1) start]
    by simp
qed

subsection \<open>Attaching to a local executable\<close>




lemma instance_spawn:
  assumes "chrome_instance_path (config s) = Some path" "path \<noteq> []"
    "unreachable (w_requests_get w (now s))"
  shows "setup_browser_with_instance w pw s =
    start_chrome w path
      (s\<lparr>trace := trace s @ Requests_get version_url 2 #
          (case w_requests_get w (now s) of
             Raises e \<Rightarrow> [Log DEBUG ''No existing Chrome instance found, starting a new one'']
           | Response code \<Rightarrow> [])\<rparr>)"
  using assms
  by (cases "w_requests_get w (now s)")
     (simp_all add: setup_browser_with_instance_def probe_existing_def io_defs prim_defs)


subsection \<open>Attaching to a running Edge\<close>

text \<open>
  What does hold of the poll loop of \<open>_connect_to_existing_edge\<close>: it raises the
  timeout error when no probe shows a reachable browser, and it probes at most as often
  as its budget says.
\<close>

lemma poll_edge_exhausted:
  assumes "\<And>t. unreachable (w_requests_get w t)"
  shows "fst (poll_edge w n s) = Inl edge_timeout"
proof (induction n arbitrary: s)
  case 0
  show ?case by (simp add: io_defs)
next
  case (Suc n)
  have u: "unreachable (w_requests_get w (length (trace s)))" by (rule assms)
  show ?case
  proof (cases "w_requests_get w (length (trace s))")
    case (Response code)
    with u show ?thesis by (simp add: Suc.IH io_defs prim_defs)
  next
    case (Raises e)
    with u show ?thesis by (simp add: Suc.IH io_defs prim_defs)
  qed
qed

lemma poll_edge_at_most:
  "\<exists>evs. trace (snd (poll_edge w n s)) = trace s @ evs \<and>
     length (filter (\<lambda>ev. ev = Requests_get version_url 2) evs) \<le> n"
proof (induction n arbitrary: s)
  case 0
  show ?case by (simp add: io_defs)
next
  case (Suc n)
  show ?case
  proof (cases "w_requests_get w (length (trace s))")
    case (Response code)
    show ?thesis
    proof (cases "code = 200")
      case True
      with Response show ?thesis by (simp add: io_defs prim_defs)
    next
      case False
      let ?s1 = "emit (Requests_get version_url 2) s"
      from Suc.IH [of ?s1] obtain evs where
        "trace (snd (poll_edge w n ?s1)) = trace ?s1 @ evs"
        "length (filter (\<lambda>ev. ev = Requests_get version_url 2) evs) \<le> n"
        by blast
      with Response False show ?thesis by (simp add: io_defs prim_defs)
    qed
  next
    case (Raises e)
    show ?thesis
    proof (cases "is_requests_ConnectionError e")
      case False
      with Raises show ?thesis by (simp add: io_defs prim_defs)
    next
      case True
      let ?s1 = "emit (Time_sleep 1) (emit (Requests_get version_url 2) s)"
      from Suc.IH [of ?s1] obtain evs where
        "trace (snd (poll_edge w n ?s1)) = trace ?s1 @ evs"
        "length (filter (\<lambda>ev. ev = Requests_get version_url 2) evs) \<le> n"
        by blast
      with Raises True show ?thesis by (simp add: io_defs prim_defs)
    qed
  qed
qed

lemma poll_edge_other_status:
  assumes "\<And>t. other_status (w_requests_get w t)"
  shows "poll_edge w n s =
    (Inl edge_timeout, s\<lparr>trace := trace s @ replicate n (Requests_get version_url 2)\<rparr>)"
proof (induction n arbitrary: s)
  case 0
  show ?case by (simp add: io_defs)
next
  case (Suc n)
  have "other_status (w_requests_get w (length (trace s)))" by (rule assms)
  then obtain code where "w_requests_get w (length (trace s)) = Response code" "code \<noteq> 200"
    by (cases "w_requests_get w (length (trace s))") simp_all
  then show ?case
    by (simp add: Suc.IH io_defs prim_defs replicate_app_Cons_same)
qed

lemma edge_probe_other_status:
  assumes "other_status (w_requests_get w (now s))"
  shows "connect_to_existing_edge w pw s = start_edge w (emit (Requests_get version_url 2) s)"
  using assms
  by (cases "w_requests_get w (now s)")
     (simp_all add: connect_to_existing_edge_def probe_existing_def io_defs prim_defs)

lemma start_edge_other_status:
  assumes "\<And>t. other_status (w_requests_get w t)"
    and "get_edge_path w = Inr edge_path" and "user_data_dir (config s) = Some dir"
    and "w_popen w [edge_path, ''--remote-debugging-port=9222'', ''--user-data-dir='' @ dir,
                    ''--no-first-run''] = None"
  shows "start_edge w s =
    (Inl edge_timeout,
     s\<lparr>trace := trace s @
          [Log INFO ''Starting Edge with remote debugging enabled'',
           Popen [edge_path, ''--remote-debugging-port=9222'', ''--user-data-dir='' @ dir,
                  ''--no-first-run'']] @
          replicate 30 (Requests_get version_url 2)\<rparr>)"
  using assms(2-4)
  by (simp add: start_edge_def poll_edge_other_status [OF assms(1)] io_defs prim_defs)

lemmas edge_reuse_defs = concrete_defs edge_reuse_config_def

lemma other_status_404: "other_status (w_requests_get status_404 t)"
  by (simp add: status_404_def)

lemma edge_path_status_404: "get_edge_path status_404 = Inr ''/usr/bin/microsoft-edge-stable''"
  by (simp add: get_edge_path_def status_404_def edge_installed_def linux_world_def linux_paths_def)

text \<open>
  Claim C8, the run that departs from it. Port 9222 answers every probe with status 404.
  \<open>_connect_to_existing_edge\<close> spawns Edge and probes thirty times, then raises the
  timeout error, but no sleep separates the probes: \<open>time.sleep(1)\<close> is reached only in
  the handler of \<open>requests.ConnectionError\<close>.
\<close>

theorem edge_poll_without_sleep:
  "fst (get_playwright_browser status_404 (Browser_init edge_reuse_config)) = Inl edge_timeout \<and>
   strategy_actions (Browser_init edge_reuse_config)
     (snd (get_playwright_browser status_404 (Browser_init edge_reuse_config))) =
     [Requests_get version_url 2,
      Popen [''/usr/bin/microsoft-edge-stable'', ''--remote-debugging-port=9222'',
             ''--user-data-dir=/home/u/edge'', ''--no-first-run'']] @
     replicate 30 (Requests_get version_url 2)"
proof -
  let ?fresh = "Browser_init edge_reuse_config"
  let ?started = "emit Async_playwright_start ?fresh"
  let ?probed = "emit (Requests_get version_url 2) ?started"
  have a: "playwright_browser ?fresh = None" "w_async_playwright_start status_404 = Inr 1"
    "\<not> truthy (cdp_url (config ?fresh))" "\<not> truthy (wss_url (config ?fresh))"
    by (simp_all add: edge_reuse_defs status_404_def edge_installed_def)
  have b: "\<not> truthy (chrome_instance_path (config ?fresh))"
    by (simp add: edge_reuse_defs)
  have c: "setup_standard_browser status_404 1 ?started = connect_to_existing_edge status_404 1 ?started"
    by (simp add: setup_standard_browser_def with_self_def edge_reuse_defs emit_def)
  have d: "user_data_dir (config ?probed) = Some ''/home/u/edge''"
    "w_popen status_404 [''/usr/bin/microsoft-edge-stable'', ''--remote-debugging-port=9222'',
        ''--user-data-dir='' @ ''/home/u/edge'', ''--no-first-run''] = None"
    by (simp_all add: edge_reuse_defs emit_def status_404_def edge_installed_def)
  from init_other [OF a, unfolded if_not_P [OF b]] c
    edge_probe_other_status [of status_404 ?started 1, OF other_status_404]
    start_edge_other_status [OF other_status_404 edge_path_status_404 d]
  show ?thesis
    by (simp add: strategy_actions_def new_events_def emit_def init_failure_log_def)
qed

subsection \<open>The temporary profile\<close>

lemma only_appends_return: "only_appends P (return_io x)"
  unfolding only_appends_def return_io_def
  by (intro exI [of _ "[]"] exI [of _ "Inr x"]) simp

lemma only_appends_raise: "only_appends P (raise_io e)"
  unfolding only_appends_def raise_io_def
  by (intro exI [of _ "[]"] exI [of _ "Inl e"]) simp

lemma only_appends_call_unit: "P ev \<Longrightarrow> only_appends P (call_unit ev outcome)"
  unfolding only_appends_def call_unit_def emit_def
  by (intro exI [of _ "[ev]"] exI [of _ "case outcome of None \<Rightarrow> Inr () | Some e \<Rightarrow> Inl e"]) simp

lemma only_appends_logger: "P (Log l msg) \<Longrightarrow> only_appends P (logger l msg)"
  unfolding only_appends_def logger_def emit_def
  by (intro exI [of _ "[Log l msg]"] exI [of _ "Inr ()"]) simp

lemma only_appends_bind:
  assumes "only_appends P m" and "\<And>x. only_appends P (k x)"
  shows "only_appends P (bind_io m k)"
proof -
  from assms(1) obtain r evs where
    m: "\<And>s. m s = (r, s\<lparr>trace := trace s @ evs\<rparr>)" and p: "list_all P evs"
    unfolding only_appends_def by blast
  show ?thesis
  proof (cases r)
    case (Inl e)
    then have "\<forall>s. bind_io m k s = (Inl e, s\<lparr>trace := trace s @ evs\<rparr>)"
      by (simp add: bind_io_def m)
    with p show ?thesis unfolding only_appends_def by blast
  next
    case (Inr x)
    from assms(2) [of x] obtain r' evs' where
      k: "\<And>s. k x s = (r', s\<lparr>trace := trace s @ evs'\<rparr>)" and p': "list_all P evs'"
      unfolding only_appends_def by blast
    have "\<forall>s. bind_io m k s = (r', s\<lparr>trace := trace s @ (evs @ evs')\<rparr>)"
      by (simp add: bind_io_def m Inr k)
    moreover have "list_all P (evs @ evs')" using p p' by simp
    ultimately show ?thesis unfolding only_appends_def by blast
  qed
qed

lemma only_appends_then:
  "only_appends P m \<Longrightarrow> only_appends P k \<Longrightarrow> only_appends P (then_io m k)"
  by (simp add: then_io_def only_appends_bind)

lemma only_appends_try_except:
  assumes "only_appends P body" and "\<And>e. only_appends P (handler e)"
  shows "only_appends P (try_except body catches handler)"
proof -
  from assms(1) obtain r evs where
    m: "\<And>s. body s = (r, s\<lparr>trace := trace s @ evs\<rparr>)" and p: "list_all P evs"
    unfolding only_appends_def by blast
  show ?thesis
  proof (cases r)
    case (Inr x)
    then have "\<forall>s. try_except body catches handler s = (Inr x, s\<lparr>trace := trace s @ evs\<rparr>)"
      by (simp add: try_except_def m)
    with p show ?thesis unfolding only_appends_def by blast
  next
    case (Inl e)
    show ?thesis
    proof (cases "catches e")
      case False
      with Inl have "\<forall>s. try_except body catches handler s = (Inl e, s\<lparr>trace := trace s @ evs\<rparr>)"
        by (simp add: try_except_def m)
      with p show ?thesis unfolding only_appends_def by blast
    next
      case True
      from assms(2) [of e] obtain r' evs' where
        k: "\<And>s. handler e s = (r', s\<lparr>trace := trace s @ evs'\<rparr>)" and p': "list_all P evs'"
        unfolding only_appends_def by blast
      have "\<forall>s. try_except body catches handler s = (r', s\<lparr>trace := trace s @ (evs @ evs')\<rparr>)"
        by (simp add: try_except_def m Inl True k)
      moreover have "list_all P (evs @ evs')" using p p' by simp
      ultimately show ?thesis unfolding only_appends_def by blast
    qed
  qed
qed

lemmas only_appends_intros = only_appends_return only_appends_raise only_appends_call_unit
  only_appends_logger only_appends_bind only_appends_then only_appends_try_except

lemma returns_return: "returns (return_io x)"
  by (simp add: returns_def return_io_def)

lemma returns_logger: "returns (logger l msg)"
  by (simp add: returns_def logger_def)

lemma returns_call_unit: "returns (call_unit ev None)"
  by (simp add: returns_def call_unit_def)

lemma returns_then: "returns m \<Longrightarrow> returns k \<Longrightarrow> returns (then_io m k)"
  unfolding returns_def then_io_def bind_io_def
  by (auto split: prod.splits sum.splits) (metis fst_conv sum.distinct(1))+

lemma returns_try_except:
  "(\<And>e. returns (handler e)) \<Longrightarrow> returns (try_except body is_Exception handler)"
  unfolding returns_def try_except_def is_Exception_def
  by (auto split: prod.splits sum.splits)

lemma only_appends_copy_cookies_files:
  "only_appends is_profile_copy_event (copy_cookies_files w src tgt paths)"
  by (induction paths)
     (auto simp: Let_def makedirs_def copy2_def intro!: only_appends_intros)

lemma only_appends_copy_local_storage:
  "only_appends is_profile_copy_event (copy_local_storage w src tgt paths)"
  by (induction paths)
     (auto simp: Let_def makedirs_def copytree_def intro!: only_appends_intros)

lemma only_appends_copy_cookies_from_profile:
  "only_appends is_profile_copy_event (copy_cookies_from_profile w src tgt)"
  unfolding copy_cookies_from_profile_def makedirs_def
  by (intro only_appends_then only_appends_call_unit only_appends_copy_cookies_files
        only_appends_copy_local_storage) simp

lemma returns_copy_cookies_files:
  "(\<And>path. w_makedirs w path = None) \<Longrightarrow> returns (copy_cookies_files w src tgt paths)"
  by (induction paths)
     (auto simp: Let_def makedirs_def
       intro!: returns_then returns_try_except returns_return returns_logger returns_call_unit)

lemma returns_copy_local_storage:
  "returns (copy_local_storage w src tgt paths)"
  by (induction paths)
     (auto simp: Let_def 
       intro!: returns_then returns_try_except returns_return returns_logger)

lemma returns_copy_cookies_from_profile:
  assumes "\<And>path. w_makedirs w path = None"
  shows "returns (copy_cookies_from_profile w src tgt)"
  unfolding copy_cookies_from_profile_def makedirs_def assms
  by (intro returns_then returns_call_unit returns_copy_cookies_files [OF assms]
        returns_copy_local_storage)


text \<open>Missing source paths are skipped: with none present, only the target is created.\<close>

lemma copy_cookies_files_missing:
  "(\<And>path. path \<in> set paths \<Longrightarrow> \<not> w_path_exists w path) \<Longrightarrow>
   copy_cookies_files w src tgt paths = return_io ()"
  by (induction paths) (simp_all add: io_defs fun_eq_iff)

lemma copy_local_storage_missing:
  "(\<And>path. path \<in> set paths \<Longrightarrow> \<not> w_path_exists w path) \<Longrightarrow>
   copy_local_storage w src tgt paths = return_io ()"
  by (induction paths) (simp_all add: io_defs fun_eq_iff)

lemma copy_nothing_to_copy:
  assumes "\<And>path. \<not> w_path_exists w path"
  shows "copy_cookies_from_profile w src tgt = makedirs w tgt"
  unfolding copy_cookies_from_profile_def
  by (simp add: copy_cookies_files_missing copy_local_storage_missing assms io_defs fun_eq_iff
      makedirs_def split: option.splits)


text \<open>
  Claim C9, the run that departs from it. The source profile holds \<open>Default/Cookies\<close>
  and lacks the other known paths; creating \<open>Default\<close> under the target fails. The
  \<open>os.makedirs\<close> call of the cookie loop stands outside the \<open>try\<close> block, so the error
  leaves \<open>_copy_cookies_from_profile\<close>, and nothing is copied or logged. (In the loop
  over the local-storage directories the same call stands inside the \<open>try\<close> block; when
  no \<open>os.makedirs\<close> call fails, the copy returns: \<open>returns_copy_cookies_from_profile\<close>.)
\<close>

theorem copy_raises_on_makedirs:
  "\<not> w_path_exists cookie_dir_fails ''/home/u/edge/Cookies'' \<and>
   fst (copy_cookies_from_profile cookie_dir_fails ''/home/u/edge'' ''/tmp/edge_profile_k3x9''
          (Browser_init BrowserConfig)) =
     Inl (Exn OSError ''[Errno 28] No space left on device'') \<and>
   new_events (Browser_init BrowserConfig)
     (snd (copy_cookies_from_profile cookie_dir_fails ''/home/u/edge'' ''/tmp/edge_profile_k3x9''
             (Browser_init BrowserConfig))) =
     [Makedirs ''/tmp/edge_profile_k3x9'', Makedirs ''/tmp/edge_profile_k3x9/Default'']"
  by code_simp


lemma copy_cookies_from_profile_run:
  assumes "\<And>path. w_makedirs w path = None"
  shows "\<exists>copied. list_all is_profile_copy_event copied \<and>
    (\<forall>s. copy_cookies_from_profile w src tgt s = (Inr (), s\<lparr>trace := trace s @ copied\<rparr>))"
proof -
  from only_appends_copy_cookies_from_profile [of w src tgt]
  obtain r copied where
    run: "\<And>s. copy_cookies_from_profile w src tgt s = (r, s\<lparr>trace := trace s @ copied\<rparr>)"
    and evs: "list_all is_profile_copy_event copied"
    unfolding only_appends_def by blast
  from returns_copy_cookies_from_profile [OF assms, of src tgt]
  obtain x where "fst (copy_cookies_from_profile w src tgt (Browser_init BrowserConfig)) = Inr x"
    unfolding returns_def by blast
  with run have "r = Inr ()" by simp
  with run evs show ?thesis by blast
qed

text \<open>
  What the branch does when no step fails: a temporary directory with prefix
  \<open>edge_profile_\<close> is created and kept as \<open>temp_dir\<close>; then the profile copy runs
  (directory creations, copies and log lines only); then Edge is launched through the
  chromium launcher from the discovered executable, with the standard launch arguments,
  the extra configured arguments and the two flags that disable private browsing; then a
  context is opened on that browser with the storage-state path discovered under the
  temporary profile, and kept as \<open>browser_context\<close>.
\<close>

lemma edge_profile_launch_run:
  assumes kind: "browser_type (config s) = ''msedge''"
    and fresh: "\<not> use_existing_browser (config s)"
    and dir: "user_data_dir (config s) = Some dir" "dir \<noteq> []"
    and edge: "get_edge_path w = Inr edge_path"
    and tmp: "w_TemporaryDirectory w ''edge_profile_'' = Inr tmp"
    and dirs: "\<And>path. w_makedirs w path = None"
    and launched:
      "w_launch w ''chromium'' (headless (config s)) (Some edge_path)
         (launch_args @ extra_chromium_args (config s) @
            [''--no-private-window'', ''--no-incognito''])
         (proxy (config s)) = Inr b"
    and opened: "w_new_context w b (get_storage_state_path w tmp) = Inr c"
  shows "\<exists>copied. list_all is_profile_copy_event copied \<and>
    setup_standard_browser w pw s =
      (Inr b,
       s\<lparr>temp_dir := Some tmp, browser_context := Some c,
         trace := trace s @
           [Log INFO (''Launching Microsoft Edge with user data directory: '' @ dir),
            TemporaryDirectory ''edge_profile_''] @
           copied @
           [Log INFO (''Created temporary profile at: '' @ tmp),
            Launch ''chromium'' (headless (config s)) (Some edge_path)
              (launch_args @ extra_chromium_args (config s) @
                 [''--no-private-window'', ''--no-incognito''])
              (proxy (config s)),
            New_context b (get_storage_state_path w tmp)]\<rparr>)"
proof -
  from copy_cookies_from_profile_run [OF dirs, of dir tmp]
  obtain copied where evs: "list_all is_profile_copy_event copied"
    and run: "\<And>s. copy_cookies_from_profile w dir tmp s = (Inr (), s\<lparr>trace := trace s @ copied\<rparr>)"
    by blast
  have "setup_standard_browser w pw s =
      (Inr b,
       s\<lparr>temp_dir := Some tmp, browser_context := Some c,
         trace := trace s @
           [Log INFO (''Launching Microsoft Edge with user data directory: '' @ dir),
            TemporaryDirectory ''edge_profile_''] @
           copied @
           [Log INFO (''Created temporary profile at: '' @ tmp),
            Launch ''chromium'' (headless (config s)) (Some edge_path)
              (launch_args @ extra_chromium_args (config s) @
                 [''--no-private-window'', ''--no-incognito''])
              (proxy (config s)),
            New_context b (get_storage_state_path w tmp)]\<rparr>)"
    using kind fresh dir edge tmp launched opened
    by (simp add: setup_standard_browser_def launch_edge_with_profile_def io_defs
        temporary_directory_def launch_def new_context_def lift_def run)
  with evs show ?thesis by blast
qed

text \<open>
  Claim C5, the run that departs from it. On Linux with Edge installed, a profile that
  holds \<open>Default/Cookies\<close> and \<open>disable_security\<close> on, the temporary profile is
  created and filled and the context is opened on its storage-state path, but the launch
  of Edge carries none of the disable-security flags, and no \<open>--user-data-dir\<close>
  argument names the temporary profile. The branch without a user-data directory passes
  both.
\<close>

theorem edge_profile_launch_flags:
  "disable_security edge_profile_config \<and>
   strategy_actions (Browser_init edge_profile_config)
     (snd (setup_standard_browser profile_world 1 (Browser_init edge_profile_config))) =
     [TemporaryDirectory ''edge_profile_'',
      Makedirs ''/tmp/edge_profile_k3x9'',
      Makedirs ''/tmp/edge_profile_k3x9/Default'',
      Copy2 ''/home/u/edge/Default/Cookies'' ''/tmp/edge_profile_k3x9/Default/Cookies'',
      Launch ''chromium'' False (Some ''/usr/bin/microsoft-edge-stable'')
        (launch_args @ [''--no-private-window'', ''--no-incognito'']) None,
      New_context 2 (Some ''/tmp/edge_profile_k3x9/Default'')] \<and>
   ''--disable-web-security'' \<notin> set (launch_args @ [''--no-private-window'', ''--no-incognito'']) \<and>
   ''--user-data-dir=/tmp/edge_profile_k3x9'' \<notin>
     set (launch_args @ [''--no-private-window'', ''--no-incognito''])"
  by code_simp


subsection \<open>Exceptions of the probe\<close>

lemma faithful_at_quiet:
  assumes "trace s' = trace s @ evs" "Requests_get version_url 2 \<notin> set evs"
  shows "faithful_at w s (r, s')"
proof -
  have "tr ! t = Requests_get version_url 2 \<Longrightarrow> length (trace s) \<le> t \<Longrightarrow> t < length tr \<Longrightarrow> tr = trace s @ evs \<Longrightarrow> False" for t tr
    using assms(2) by (metis add_diff_inverse_nat leD length_append nat_add_left_cancel_less nth_append nth_mem)
  with assms(1) show ?thesis
    unfolding faithful_at_def probe_raised_def by auto
qed

lemma faithful_return: "faithful w (return_io x)"
  unfolding faithful_def return_io_def
  by (intro allI faithful_at_quiet [where evs = "[]"]) simp_all

lemma faithful_raise: "faithful w (raise_io e)"
  unfolding faithful_def raise_io_def
  by (intro allI faithful_at_quiet [where evs = "[]"]) simp_all

lemma faithful_lift: "faithful w (lift r)"
  unfolding faithful_def lift_def
  by (intro allI faithful_at_quiet [where evs = "[]"]) simp_all

lemma faithful_modify: "(\<And>s. trace (f s) = trace s) \<Longrightarrow> faithful w (modify f)"
  unfolding faithful_def modify_def
  by (intro allI faithful_at_quiet [where evs = "[]"]) simp_all

lemma faithful_logger: "faithful w (logger l msg)"
  unfolding faithful_def logger_def emit_def
  by (intro allI faithful_at_quiet [where evs = "[Log l msg]"]) simp_all

lemma faithful_call: "ev \<noteq> Requests_get version_url 2 \<Longrightarrow> faithful w (call ev outcome)"
  unfolding faithful_def call_def emit_def
  by (intro allI faithful_at_quiet [where evs = "[ev]"]) simp_all

lemma faithful_call_unit: "ev \<noteq> Requests_get version_url 2 \<Longrightarrow> faithful w (call_unit ev outcome)"
  unfolding faithful_def call_unit_def emit_def
  by (intro allI faithful_at_quiet [where evs = "[ev]"]) simp_all

lemma faithful_requests_get: "faithful w (requests_get w)"
  unfolding faithful_def faithful_at_def probe_raised_def requests_get_def with_self_def call_def
    emit_def now_def
  by (auto simp: nth_append less_Suc_eq split: probe.splits)


lemma probe_raised_prefix:
  "probe_raised w (tr @ evs) t e \<Longrightarrow> t < length tr \<Longrightarrow> probe_raised w tr t e"
  by (simp add: probe_raised_def nth_append)

lemma faithful_atI:
  assumes "trace s' = trace s @ evs"
    and "\<And>t e. length (trace s) \<le> t \<Longrightarrow> probe_raised w (trace s') t e \<Longrightarrow>
           r = Inl e \<and> filter is_strategy_action (drop (Suc t) (trace s')) = []"
  shows "faithful_at w s (r, s')"
  using assms unfolding faithful_at_def by auto

lemma faithful_at_trace:
  "faithful_at w s (r, s') \<Longrightarrow> \<exists>evs. trace s' = trace s @ evs"
  unfolding faithful_at_def by simp

lemma faithful_at_raised:
  "faithful_at w s (r, s') \<Longrightarrow> length (trace s) \<le> t \<Longrightarrow> probe_raised w (trace s') t e \<Longrightarrow>
   r = Inl e \<and> filter is_strategy_action (drop (Suc t) (trace s')) = []"
  unfolding faithful_at_def by simp

lemma faithful_bind:
  assumes "faithful w m" and "\<And>x. faithful w (k x)"
  shows "faithful w (bind_io m k)"
  unfolding faithful_def
proof
  fix s
  obtain r1 s1 where m: "m s = (r1, s1)" by (cases "m s")
  from assms(1) have f1: "faithful_at w s (r1, s1)" unfolding faithful_def m [symmetric] by simp
  from faithful_at_trace [OF f1] obtain e1 where t1: "trace s1 = trace s @ e1" by blast
  note b1 = faithful_at_raised [OF f1]
  show "faithful_at w s (bind_io m k s)"
  proof (cases r1)
    case (Inl e0)
    then have res: "bind_io m k s = (Inl e0, s1)" by (simp add: bind_io_def m)
    have "faithful_at w s (Inl e0 :: exn + 'b, s1)"
    proof (rule faithful_atI [OF t1])
      fix t e
      assume "length (trace s) \<le> t" "probe_raised w (trace s1) t e"
      from b1 [OF this] Inl
      show "(Inl e0 :: exn + 'b) = Inl e \<and> filter is_strategy_action (drop (Suc t) (trace s1)) = []"
        by simp
    qed
    with res show ?thesis by simp
  next
    case (Inr x)
    obtain r s' where k: "k x s1 = (r, s')" by (cases "k x s1")
    from assms(2) [of x] have f2: "faithful_at w s1 (r, s')" unfolding faithful_def k [symmetric] by simp
    from faithful_at_trace [OF f2] obtain e2 where t2: "trace s' = trace s1 @ e2" by blast
    note b2 = faithful_at_raised [OF f2]
    have res: "bind_io m k s = (r, s')" by (simp add: bind_io_def m Inr k)
    have "faithful_at w s (r, s')"
    proof (rule faithful_atI)
      show "trace s' = trace s @ (e1 @ e2)" by (simp add: t1 t2)
    next
      fix t e
      assume t: "length (trace s) \<le> t" and p: "probe_raised w (trace s') t e"
      show "r = Inl e \<and> filter is_strategy_action (drop (Suc t) (trace s')) = []"
      proof (cases "t < length (trace s1)")
        case True
        with p have "probe_raised w (trace s1) t e" unfolding t2 by (rule probe_raised_prefix)
        from b1 [OF t this] Inr show ?thesis by simp
      next
        case False
        then have "length (trace s1) \<le> t" by simp
        from b2 [OF this p] show ?thesis .
      qed
    qed
    with res show ?thesis by simp
  qed
qed

lemma faithful_then: "faithful w m \<Longrightarrow> faithful w k \<Longrightarrow> faithful w (then_io m k)"
  by (simp add: then_io_def faithful_bind)

lemma faithful_try_except_refused:
  assumes "faithful w body" and "\<And>e. faithful w (handler e)"
  shows "faithful w (try_except body is_requests_ConnectionError handler)"
  unfolding faithful_def
proof
  fix s
  obtain r1 s1 where m: "body s = (r1, s1)" by (cases "body s")
  from assms(1) have f1: "faithful_at w s (r1, s1)" unfolding faithful_def m [symmetric] by simp
  from faithful_at_trace [OF f1] obtain e1 where t1: "trace s1 = trace s @ e1" by blast
  note b1 = faithful_at_raised [OF f1]
  show "faithful_at w s (try_except body is_requests_ConnectionError handler s)"
  proof (cases "\<exists>e0. r1 = Inl e0 \<and> is_requests_ConnectionError e0")
    case False
    then have "try_except body is_requests_ConnectionError handler s = (r1, s1)"
      by (cases r1) (auto simp: try_except_def m)
    with f1 show ?thesis by simp
  next
    case True
    then obtain e0 where e0: "r1 = Inl e0" "is_requests_ConnectionError e0" by blast
    obtain r s' where k: "handler e0 s1 = (r, s')" by (cases "handler e0 s1")
    from assms(2) [of e0] have f2: "faithful_at w s1 (r, s')" unfolding faithful_def k [symmetric] by simp
    from faithful_at_trace [OF f2] obtain e2 where t2: "trace s' = trace s1 @ e2" by blast
    note b2 = faithful_at_raised [OF f2]
    have res: "try_except body is_requests_ConnectionError handler s = (r, s')"
      by (simp add: try_except_def m e0 k)
    have "faithful_at w s (r, s')"
    proof (rule faithful_atI)
      show "trace s' = trace s @ (e1 @ e2)" by (simp add: t1 t2)
    next
      fix t e
      assume t: "length (trace s) \<le> t" and p: "probe_raised w (trace s') t e"
      show "r = Inl e \<and> filter is_strategy_action (drop (Suc t) (trace s')) = []"
      proof (cases "t < length (trace s1)")
        case True
        with p have p1: "probe_raised w (trace s1) t e" unfolding t2 by (rule probe_raised_prefix)
        from b1 [OF t p1] e0 have "e0 = e" by simp
        with e0(2) p1 show ?thesis by (simp add: probe_raised_def)
      next
        case False
        then have "length (trace s1) \<le> t" by simp
        from b2 [OF this p] show ?thesis .
      qed
    qed
    with res show ?thesis by simp
  qed
qed

lemma faithful_try_except_call:
  assumes "ev \<noteq> Requests_get version_url 2" and "\<And>e. faithful w (handler e)"
  shows "faithful w (try_except (call ev outcome) catches handler)"
  unfolding faithful_def
proof
  fix s
  let ?s1 = "emit ev s"
  have q: "faithful_at w s (r, ?s1)" for r :: "exn + 'a"
    by (rule faithful_at_quiet [where evs = "[ev]"]) (simp_all add: emit_def assms(1) [symmetric])
  show "faithful_at w s (try_except (call ev outcome) catches handler s)"
  proof (cases "\<exists>e0. outcome = Inl e0 \<and> catches e0")
    case False
    then have "try_except (call ev outcome) catches handler s = (outcome, ?s1)"
      by (cases outcome) (auto simp: try_except_def call_def)
    with q show ?thesis by simp
  next
    case True
    then obtain e0 where e0: "outcome = Inl e0" "catches e0" by blast
    obtain r s' where k: "handler e0 ?s1 = (r, s')" by (cases "handler e0 ?s1")
    from assms(2) [of e0] have f2: "faithful_at w ?s1 (r, s')" unfolding faithful_def k [symmetric] by simp
    from faithful_at_trace [OF f2] obtain e2 where t2: "trace s' = trace ?s1 @ e2" by blast
    note b2 = faithful_at_raised [OF f2]
    have res: "try_except (call ev outcome) catches handler s = (r, s')"
      by (simp add: try_except_def call_def e0 k)
    have "faithful_at w s (r, s')"
    proof (rule faithful_atI)
      show "trace s' = trace s @ (ev # e2)" by (simp add: t2 emit_def)
    next
      fix t e
      assume t: "length (trace s) \<le> t" and p: "probe_raised w (trace s') t e"
      have "t \<noteq> length (trace s)"
        using p assms(1) [symmetric] by (auto simp: probe_raised_def t2 emit_def nth_append)
      with t have "length (trace ?s1) \<le> t" by (simp add: emit_def)
      from b2 [OF this p] show "r = Inl e \<and> filter is_strategy_action (drop (Suc t) (trace s')) = []" .
    qed
    with res show ?thesis by simp
  qed
qed

lemma faithful_try_except_reraise:
  assumes "faithful w body"
  shows "faithful w (try_except body catches (\<lambda>e. then_io (logger l (msg e)) (raise_io e)))"
  unfolding faithful_def
proof
  fix s
  obtain r1 s1 where m: "body s = (r1, s1)" by (cases "body s")
  from assms(1) have f1: "faithful_at w s (r1, s1)" unfolding faithful_def m [symmetric] by simp
  from faithful_at_trace [OF f1] obtain e1 where t1: "trace s1 = trace s @ e1" by blast
  note b1 = faithful_at_raised [OF f1]
  let ?m = "try_except body catches (\<lambda>e. then_io (logger l (msg e)) (raise_io e))"
  show "faithful_at w s (?m s)"
  proof (cases "\<exists>e0. r1 = Inl e0 \<and> catches e0")
    case False
    then have "?m s = (r1, s1)"
      by (cases r1) (auto simp: try_except_def m)
    with f1 show ?thesis by simp
  next
    case True
    then obtain e0 where e0: "r1 = Inl e0" "catches e0" by blast
    let ?s' = "emit (Log l (msg e0)) s1"
    have res: "?m s = (r1, ?s')"
      by (simp add: try_except_def m e0 io_defs)
    have "faithful_at w s (r1, ?s')"
    proof (rule faithful_atI)
      show "trace ?s' = trace s @ (e1 @ [Log l (msg e0)])" by (simp add: t1 emit_def)
    next
      fix t e
      assume t: "length (trace s) \<le> t" and p: "probe_raised w (trace ?s') t e"
      have lt: "t < length (trace s1)"
        using p by (auto simp: probe_raised_def emit_def nth_append less_Suc_eq)
      with p have "probe_raised w (trace s1) t e"
        by (simp add: emit_def probe_raised_prefix)
      from b1 [OF t this] lt
      show "r1 = Inl e \<and> filter is_strategy_action (drop (Suc t) (trace ?s')) = []"
        by (simp add: emit_def)
    qed
    with res show ?thesis by simp
  qed
qed


lemma faithful_with_self: "(\<And>self. faithful w (f self)) \<Longrightarrow> faithful w (with_self f)"
  by (simp add: faithful_def with_self_def)

lemma faithful_only_appends:
  assumes "only_appends P m" and "\<not> P (Requests_get version_url 2)"
  shows "faithful w m"
proof -
  from assms(1) obtain r evs where evs: "list_all P evs"
    and run: "\<And>s. m s = (r, s\<lparr>trace := trace s @ evs\<rparr>)"
    unfolding only_appends_def by blast
  from evs assms(2) have "Requests_get version_url 2 \<notin> set evs"
    by (auto simp: list_all_iff)
  then show ?thesis
    unfolding faithful_def run
    by (intro allI faithful_at_quiet [where evs = evs]) simp_all
qed

lemmas faithful_intros = faithful_return faithful_raise faithful_lift faithful_logger
  faithful_requests_get faithful_bind faithful_then faithful_with_self
  faithful_try_except_refused faithful_try_except_reraise

lemma faithful_connect_over_cdp: "faithful w (connect_over_cdp w url timeout)"
  by (simp add: connect_over_cdp_def faithful_call)

lemma faithful_connect: "faithful w (connect w url)"
  by (simp add: connect_def faithful_call)

lemma faithful_popen: "faithful w (popen w cmd)"
  by (simp add: popen_def faithful_call_unit)

lemma faithful_asyncio_sleep: "faithful w (asyncio_sleep n)"
  by (simp add: asyncio_sleep_def faithful_call_unit)

lemma faithful_time_sleep: "faithful w (time_sleep n)"
  by (simp add: time_sleep_def faithful_call_unit)

lemma faithful_temporary_directory: "faithful w (temporary_directory w pre)"
  by (simp add: temporary_directory_def faithful_call)

lemma faithful_launch: "faithful w (launch w kind hl exe args prx)"
  by (simp add: launch_def faithful_call)

lemma faithful_new_context: "faithful w (new_context w b st)"
  by (simp add: new_context_def faithful_call)

lemmas faithful_prims = faithful_connect_over_cdp faithful_connect faithful_popen
  faithful_asyncio_sleep faithful_time_sleep faithful_temporary_directory faithful_launch
  faithful_new_context

lemma faithful_setup_cdp: "faithful w (setup_cdp w pw)"
  unfolding setup_cdp_def
  by (auto intro!: faithful_intros faithful_prims split: option.splits)

lemma faithful_setup_wss: "faithful w (setup_wss w pw)"
  unfolding setup_wss_def
  by (auto intro!: faithful_intros faithful_prims split: option.splits)

lemma faithful_probe_existing:
  "faithful w on_refused \<Longrightarrow> faithful w (probe_existing w found on_refused)"
  unfolding probe_existing_def
  by (auto intro!: faithful_intros faithful_prims)

lemma faithful_poll_chrome: "faithful w (poll_chrome w n)"
  by (induction n) (auto intro!: faithful_intros faithful_prims)

lemma faithful_poll_edge: "faithful w (poll_edge w n)"
  by (induction n) (auto intro!: faithful_intros faithful_prims)

lemma faithful_start_chrome: "faithful w (start_chrome w path)"
  unfolding start_chrome_def connect_over_cdp_def
  by (intro faithful_intros faithful_prims faithful_poll_chrome faithful_try_except_call) simp

lemma faithful_setup_browser_with_instance: "faithful w (setup_browser_with_instance w pw)"
  unfolding setup_browser_with_instance_def
  by (auto intro!: faithful_intros faithful_probe_existing faithful_start_chrome
      split: option.splits)

lemma faithful_start_edge: "faithful w (start_edge w)"
  unfolding start_edge_def
  by (auto intro!: faithful_intros faithful_prims faithful_poll_edge split: option.splits)

lemma faithful_connect_to_existing_edge: "faithful w (connect_to_existing_edge w pw)"
  unfolding connect_to_existing_edge_def
  by (auto intro!: faithful_intros faithful_probe_existing faithful_start_edge
      split: option.splits)

lemma faithful_copy_cookies_from_profile: "faithful w (copy_cookies_from_profile w src tgt)"
  by (rule faithful_only_appends [OF only_appends_copy_cookies_from_profile]) simp

lemma faithful_launch_edge_with_profile: "faithful w (launch_edge_with_profile w edge_path dir)"
  unfolding launch_edge_with_profile_def
  by (intro faithful_intros faithful_prims faithful_copy_cookies_from_profile faithful_modify)
     simp_all

lemma faithful_launch_edge_disposable: "faithful w (launch_edge_disposable w edge_path)"
  unfolding launch_edge_disposable_def
  by (intro faithful_intros faithful_prims faithful_modify) simp_all

lemma faithful_launch_other: "faithful w (launch_other w)"
  unfolding launch_other_def
  by (auto intro!: faithful_intros faithful_prims split: option.splits pw_attr.splits)

lemma faithful_setup_standard_browser: "faithful w (setup_standard_browser w pw)"
  unfolding setup_standard_browser_def
  by (auto intro!: faithful_intros faithful_connect_to_existing_edge
        faithful_launch_edge_disposable faithful_launch_edge_with_profile faithful_launch_other
      split: option.splits)

lemma faithful_setup_browser: "faithful w (setup_browser w pw)"
  unfolding setup_browser_def
  by (auto intro!: faithful_with_self faithful_try_except_reraise faithful_setup_cdp
        faithful_setup_wss faithful_setup_browser_with_instance faithful_setup_standard_browser)

lemma faithful_get_playwright_browser: "faithful w (get_playwright_browser w)"
  unfolding get_playwright_browser_def init_def
  by (auto intro!: faithful_intros faithful_call faithful_setup_browser faithful_modify
      split: option.splits)


lemma edge_spawn:
  assumes "unreachable (w_requests_get w (now s))"
  shows "connect_to_existing_edge w pw s = start_edge w (emit (Requests_get version_url 2) s)"
  using assms
  by (cases "w_requests_get w (now s)")
     (simp_all add: connect_to_existing_edge_def probe_existing_def io_defs prim_defs)

lemma poll_chrome_retry:
  assumes "unreachable (w_requests_get w (now s))"
  shows "poll_chrome w (Suc n) s =
    poll_chrome w n (emit (Asyncio_sleep 1) (emit (Requests_get version_url 2) s))"
  using assms
  by (cases "w_requests_get w (now s)") (simp_all add: io_defs prim_defs)

lemma poll_edge_retry:
  assumes "unreachable (w_requests_get w (now s))"
  shows "poll_edge w (Suc n) s =
    poll_edge w n
      (s\<lparr>trace := trace s @ Requests_get version_url 2 #
          (case w_requests_get w (now s) of
             Raises e \<Rightarrow> [Time_sleep 1] | Response code \<Rightarrow> [])\<rparr>)"
  using assms
  by (cases "w_requests_get w (now s)") (simp_all add: io_defs prim_defs)

text \<open>
  Claim C10. In any initialisation by \<open>get_playwright_browser\<close>, whenever a probe (the
  first one or one of either poll loop) raises an exception that is no
  \<open>requests.ConnectionError\<close>, the call raises that very exception to the caller and
  performs no strategy action after that probe: no spawn, no retry, no attachment. A probe
  that is refused (\<open>requests.ConnectionError\<close>) or answered with a status other than
  200 raises nothing: as the first probe of \<open>_setup_browser_with_instance\<close> or of
  \<open>_connect_to_existing_edge\<close> it leads on to the code that spawns the browser, and
  inside a poll loop it leads on to the next iteration.
\<close>

theorem probe_failures:
  "(length (trace s) \<le> t \<and> probe_raised w (trace (snd (get_playwright_browser w s))) t e \<longrightarrow>
      fst (get_playwright_browser w s) = Inl e \<and>
      filter is_strategy_action (drop (Suc t) (trace (snd (get_playwright_browser w s)))) = []) \<and>
   (chrome_instance_path (config s) = Some path \<and> path \<noteq> [] \<and>
    unreachable (w_requests_get w (now s)) \<longrightarrow>
      setup_browser_with_instance w pw s =
        start_chrome w path
          (s\<lparr>trace := trace s @ Requests_get version_url 2 #
              (case w_requests_get w (now s) of
                 Raises e \<Rightarrow> [Log DEBUG ''No existing Chrome instance found, starting a new one'']
               | Response code \<Rightarrow> [])\<rparr>)) \<and>
   (unreachable (w_requests_get w (now s)) \<longrightarrow>
      connect_to_existing_edge w pw s = start_edge w (emit (Requests_get version_url 2) s) \<and>
      poll_chrome w (Suc n) s =
        poll_chrome w n (emit (Asyncio_sleep 1) (emit (Requests_get version_url 2) s)) \<and>
      poll_edge w (Suc n) s =
        poll_edge w n
          (s\<lparr>trace := trace s @ Requests_get version_url 2 #
              (case w_requests_get w (now s) of
                 Raises e \<Rightarrow> [Time_sleep 1] | Response code \<Rightarrow> [])\<rparr>))"
proof -
  have "faithful_at w s (fst (get_playwright_browser w s), snd (get_playwright_browser w s))"
    using faithful_get_playwright_browser [of w] by (simp add: faithful_def)
  from faithful_at_raised [OF this] instance_spawn [of s path w pw] edge_spawn [of w s pw]
    poll_chrome_retry [of w s n] poll_edge_retry [of w s n]
  show ?thesis by blast
qed

text \<open>
  Claim C10, runs: a probe that times out at once, a probe that times out during the poll
  loop after refused attempts, and a refused first probe that leads on to the spawn.
\<close>

theorem probe_failures_witness:
  "probe_raised probe_times_out
     (trace (snd (get_playwright_browser probe_times_out (Browser_init chrome_config)))) 2
     read_timeout \<and>
   fst (get_playwright_browser probe_times_out (Browser_init chrome_config)) = Inl read_timeout \<and>
   probe_raised times_out_while_polling
     (trace (snd (get_playwright_browser times_out_while_polling (Browser_init chrome_config)))) 7
     read_timeout \<and>
   fst (get_playwright_browser times_out_while_polling (Browser_init chrome_config)) =
     Inl read_timeout \<and>
   unreachable (w_requests_get linux_world (now (Browser_init chrome_config))) \<and>
   setup_browser_with_instance linux_world 1 (Browser_init chrome_config) =
     start_chrome linux_world ''/usr/bin/google-chrome''
       ((Browser_init chrome_config)\<lparr>trace :=
           [Log DEBUG ''Initializing new browser'', Requests_get version_url 2,
            Log DEBUG ''No existing Chrome instance found, starting a new one'']\<rparr>) \<and>
   connect_to_existing_edge linux_world 1 (Browser_init chrome_config) =
     start_edge linux_world (emit (Requests_get version_url 2) (Browser_init chrome_config))"
proof -
  let ?fresh = "Browser_init chrome_config"
  have a: "length (trace ?fresh) \<le> 2" "length (trace ?fresh) \<le> 7"
    by (simp_all add: Browser_init_def)
  have p: "probe_raised probe_times_out
     (trace (snd (get_playwright_browser probe_times_out ?fresh))) 2 read_timeout"
    by code_simp
  have q: "probe_raised times_out_while_polling
     (trace (snd (get_playwright_browser times_out_while_polling ?fresh))) 7 read_timeout"
    by code_simp
  have c: "chrome_instance_path (config ?fresh) = Some ''/usr/bin/google-chrome''"
    "''/usr/bin/google-chrome'' \<noteq> []"
    "unreachable (w_requests_get linux_world (now ?fresh))"
    "w_requests_get linux_world (now ?fresh) =
       Raises (Exn Requests_ConnectionError ''Connection refused'')"
    "trace ?fresh = [Log DEBUG ''Initializing new browser'']"
    by (simp_all add: chrome_config_def concrete_defs is_requests_ConnectionError_def)
  show ?thesis
    using a p q c
      probe_failures [of ?fresh 2 probe_times_out read_timeout]
      probe_failures [of ?fresh 7 times_out_while_polling read_timeout]
      probe_failures [of ?fresh _ linux_world _ "''/usr/bin/google-chrome''" 1]
    by simp
qed

subsection \<open>Outcomes of the local-executable path\<close>













end
